theory Spec2Isabelle
  imports Main "HOL-Library.AList"
begin

section \<open>JavaScript strings\<close>

text \<open>
  Class tokens, property names and values are JavaScript strings; they are modelled as
  \<open>string\<close> (a list of characters, the code units up to U+00FF). The class vocabulary of
  the mapper is ASCII; the character classes below are the JavaScript ones on these
  characters, so \<open>\s\<close> holds the no-break space U+00A0 besides the ASCII white space.
  \<open>startsWith s p\<close> is \<open>s.startsWith(p)\<close>, \<open>endsWith s p\<close> is \<open>s.endsWith(p)\<close>,
  \<open>str_includes s p\<close> is \<open>s.includes(p)\<close> and \<open>slice n s\<close> is \<open>s.slice(n)\<close> for \<open>n \<ge> 0\<close>.
\<close>

fun startsWith :: "string \<Rightarrow> string \<Rightarrow> bool" where
  "startsWith s [] = True"
| "startsWith [] (p # ps) = False"
| "startsWith (c # cs) (p # ps) = (c = p \<and> startsWith cs ps)"


fun str_includes :: "string \<Rightarrow> string \<Rightarrow> bool" where
  "str_includes [] p = (p = [])"
| "str_includes (c # cs) p = (startsWith (c # cs) p \<or> str_includes cs p)"

definition slice :: "nat \<Rightarrow> string \<Rightarrow> string" where
  "slice n s = drop n s"

definition lower_char :: "char \<Rightarrow> char" where
  "lower_char c =
     (case map_of (zip ''ABCDEFGHIJKLMNOPQRSTUVWXYZ'' ''abcdefghijklmnopqrstuvwxyz'') c of
        Some d \<Rightarrow> d | None \<Rightarrow> c)"

definition toLowerCase :: "string \<Rightarrow> string" where
  "toLowerCase s = map lower_char s"

section \<open>JavaScript objects\<close>

text \<open>
  A plain object is the list of its own entries. The lookup \<open>obj[key]\<close> finds an own entry
  first; for a key that is no own entry and is the name of a member of \<open>Object.prototype\<close>
  it finds that member (a function, or the prototype itself under \<open>__proto__\<close>), which is
  truthy, neither \<open>null\<close> nor \<open>undefined\<close>, and has none of the properties of the values
  stored in the object. Otherwise it is \<open>undefined\<close>. Where such a member is turned into a
  string, the text is the engine's and is the parameter \<open>protoText\<close> of the functions below.
\<close>

definition objectPrototypeKeys :: "string list" where
  "objectPrototypeKeys =
     [''constructor'', ''__defineGetter__'', ''__defineSetter__'', ''hasOwnProperty'',
      ''__lookupGetter__'', ''__lookupSetter__'', ''isPrototypeOf'', ''propertyIsEnumerable'',
      ''toString'', ''valueOf'', ''__proto__'', ''toLocaleString'']"

datatype 'a js_prop = Own 'a | Inherited | Missing

definition js_get :: "(string \<times> 'a) list \<Rightarrow> string \<Rightarrow> 'a js_prop" where
  "js_get obj key =
     (case map_of obj key of
        Some v \<Rightarrow> Own v
      | None \<Rightarrow> if key \<in> set objectPrototypeKeys then Inherited else Missing)"

section \<open>Regular expressions\<close>

text \<open>
  The regular expressions of the source are written as syntax trees, one constructor per
  regex operator, and run by a backtracking matcher: \<open>rx_rest r s\<close> lists what is left of
  \<open>s\<close> after each way \<open>r\<close> can match a prefix of it. \<open>NegLook\<close> is the negative lookahead
  \<open>(?!r)\<close> and \<open>Eol\<close> is \<open>$\<close>. Every pattern of the source that is run through \<open>rx_test\<close>
  starts with \<open>^\<close>, so \<open>pattern.test(s)\<close> is a match at the start of \<open>s\<close>.
  A starred expression that matches the empty string is cut off (the iteration only
  goes on from a shorter rest), as in JavaScript.
\<close>

datatype rx = Eps | Sym "char \<Rightarrow> bool" | Cat rx rx | Alt rx rx | Star rx | NegLook rx | Eol

fun star_iter :: "(string \<Rightarrow> string list) \<Rightarrow> nat \<Rightarrow> string \<Rightarrow> string list" where
  "star_iter f 0 s = [s]"
| "star_iter f (Suc n) s =
     s # concat (map (star_iter f n) (filter (\<lambda>t. length t < length s) (f s)))"

primrec rx_rest :: "rx \<Rightarrow> string \<Rightarrow> string list" where
  "rx_rest Eps s = [s]"
| "rx_rest (Sym p) s = (case s of [] \<Rightarrow> [] | c # cs \<Rightarrow> if p c then [cs] else [])"
| "rx_rest (Cat a b) s = concat (map (rx_rest b) (rx_rest a s))"
| "rx_rest (Alt a b) s = rx_rest a s @ rx_rest b s"
| "rx_rest (Star a) s = star_iter (rx_rest a) (length s) s"
| "rx_rest (NegLook a) s = (if rx_rest a s = [] then [s] else [])"
| "rx_rest Eol s = (if s = [] then [s] else [])"

definition rx_test :: "rx \<Rightarrow> string \<Rightarrow> bool" where
  "rx_test r s = (rx_rest r s \<noteq> [])"

text \<open>Derived operators: \<open>r?\<close>, \<open>r+\<close>, \<open>r{n}\<close>, a literal, a literal under the \<open>i\<close> flag,
  and an alternation of several branches.\<close>

definition Opt :: "rx \<Rightarrow> rx" where
  "Opt r = Alt r Eps"

definition Plus :: "rx \<Rightarrow> rx" where
  "Plus r = Cat r (Star r)"

fun Times :: "nat \<Rightarrow> rx \<Rightarrow> rx" where
  "Times 0 r = Eps"
| "Times (Suc n) r = Cat r (Times n r)"

definition Ch :: "char \<Rightarrow> rx" where
  "Ch c = Sym (\<lambda>x. x = c)"

definition ChI :: "char \<Rightarrow> rx" where
  "ChI c = Sym (\<lambda>x. lower_char x = lower_char c)"

fun Lit :: "string \<Rightarrow> rx" where
  "Lit [] = Eps"
| "Lit (c # cs) = Cat (Ch c) (Lit cs)"

fun LitI :: "string \<Rightarrow> rx" where
  "LitI [] = Eps"
| "LitI (c # cs) = Cat (ChI c) (LitI cs)"

fun Alts :: "rx list \<Rightarrow> rx" where
  "Alts [] = NegLook Eps"
| "Alts [r] = r"
| "Alts (r # rs) = Alt r (Alts rs)"

fun Cats :: "rx list \<Rightarrow> rx" where
  "Cats [] = Eps"
| "Cats (r # rs) = Cat r (Cats rs)"

definition Words :: "string list \<Rightarrow> rx" where
  "Words ws = Alts (map Lit ws)"

text \<open>Character classes: \<open>\d\<close>, \<open>[0-9A-Fa-f]\<close>, \<open>\w\<close>, \<open>\s\<close> and \<open>.\<close> (any character but a
  line terminator).\<close>

definition is_digit :: "char \<Rightarrow> bool" where
  "is_digit c = (c \<in> set ''0123456789'')"

definition is_hex :: "char \<Rightarrow> bool" where
  "is_hex c = (c \<in> set ''0123456789ABCDEFabcdef'')"

definition is_word :: "char \<Rightarrow> bool" where
  "is_word c =
     (c \<in> set ''ABCDEFGHIJKLMNOPQRSTUVWXYZabcdefghijklmnopqrstuvwxyz0123456789_'')"

definition is_space :: "char \<Rightarrow> bool" where
  "is_space c =
     (c \<in> set [CHR '' '', CHR 0x09, CHR 0x0A, CHR 0x0B, CHR 0x0C, CHR 0x0D, CHR 0xA0])"

definition is_dot :: "char \<Rightarrow> bool" where
  "is_dot c = (c \<noteq> CHR 0x0A \<and> c \<noteq> CHR 0x0D)"

definition Digit :: rx where
  "Digit = Sym is_digit"

definition Dot :: rx where
  "Dot = Sym is_dot"

section \<open>The colour and image heuristics\<close>

text \<open>\<open>isColorValue\<close> (lines 15 to 53 of the class mapper), check by check.\<close>

definition colorKeywords :: "string list" where
  "colorKeywords =
     [''transparent'', ''currentcolor'', ''inherit'',
      ''black'', ''white'', ''red'', ''green'', ''blue'',
      ''yellow'', ''purple'', ''pink'', ''gray'', ''grey'', ''orange'', ''cyan'', ''magenta'',
      ''indigo'', ''violet'', ''brown'', ''lime'', ''teal'', ''navy'', ''maroon'', ''olive'']"

definition rx_hex :: "nat \<Rightarrow> rx" where
  \<comment> \<open>\<open>/^#?[0-9A-Fa-f]{n}$/\<close>\<close>
  "rx_hex n = Cats [Opt (Ch CHR ''#''), Times n (Sym is_hex), Eol]"

definition rx_rgb :: rx where
  \<comment> \<open>\<open>/^rgba?\s*\(/i\<close>\<close>
  "rx_rgb = Cats [LitI ''rgb'', Opt (ChI CHR ''a''), Star (Sym is_space), Ch CHR ''('']"

definition rx_hsl :: rx where
  \<comment> \<open>\<open>/^hsla?\s*\(/i\<close>\<close>
  "rx_hsl = Cats [LitI ''hsl'', Opt (ChI CHR ''a''), Star (Sym is_space), Ch CHR ''('']"

definition rx_number :: rx where
  \<comment> \<open>\<open>-?\d*\.?\d+\<close>\<close>
  "rx_number = Cats [Opt (Ch CHR ''-''), Star Digit, Opt (Ch CHR ''.''), Plus Digit]"

definition rx_size_unit :: rx where
  \<comment> \<open>\<open>/^-?\d*\.?\d+(px|rem|em|%|vh|vw|vmin|vmax|ch|ex|cm|mm|in|pt|pc)$/i\<close>\<close>
  "rx_size_unit =
     Cats [rx_number,
           Alts (map LitI [''px'', ''rem'', ''em'', ''%'', ''vh'', ''vw'', ''vmin'', ''vmax'',
                           ''ch'', ''ex'', ''cm'', ''mm'', ''in'', ''pt'', ''pc'']),
           Eol]"

definition rx_plain_number :: rx where
  \<comment> \<open>\<open>/^-?\d*\.?\d+$/\<close>\<close>
  "rx_plain_number = Cats [rx_number, Eol]"

definition isColorValue :: "string \<Rightarrow> bool" where
  "isColorValue v =
     (if rx_test (rx_hex 3) v then True
      else if rx_test (rx_hex 6) v then True
      else if rx_test (rx_hex 8) v then True
      else if rx_test rx_rgb v then True
      else if rx_test rx_hsl v then True
      else if toLowerCase v \<in> set colorKeywords then True
      else if rx_test rx_size_unit v then False
      else if rx_test rx_plain_number v then False
      else False)"

text \<open>\<open>isImageValue\<close> (lines 1101 to 1119): the URL and gradient checks return before
  the colour check is reached.\<close>

definition isImageValue :: "string \<Rightarrow> bool" where
  "isImageValue v =
     (if startsWith v ''url('' \<or> str_includes v ''http://'' \<or> str_includes v ''https://''
         \<or> str_includes v ''data:'' then True
      else if str_includes v ''gradient('' \<or> str_includes v ''linear-gradient''
         \<or> str_includes v ''radial-gradient'' \<or> str_includes v ''conic-gradient'' then True
      else if isColorValue v then False
      else False)"

section \<open>The class pattern registry\<close>

text \<open>
  \<open>CLASS_PROPERTY_MAP\<close> (lines 105 to 186), in the order of the source (the order
  \<open>Object.entries\<close> walks it in). \<open>anch p body\<close> is \<open>/^p(body)$/\<close>; \<open>Bracket\<close> is
  \<open>\[.+\]\<close>; \<open>Digits\<close> is \<open>\d+\<close>.
\<close>

definition Bracket :: rx where
  "Bracket = Cats [Ch CHR ''['', Plus Dot, Ch CHR '']'']"

definition Digits :: rx where
  "Digits = Plus Digit"

definition anch :: "string \<Rightarrow> rx \<Rightarrow> rx" where
  "anch p body = Cats [Lit p, body, Eol]"

definition rx_scale :: rx where
  \<comment> \<open>\<open>(\[.+\]|\d+|px|0\.5|1\.5|2\.5|3\.5)\<close>\<close>
  "rx_scale = Alts ([Bracket, Digits] @ map Lit [''px'', ''0.5'', ''1.5'', ''2.5'', ''3.5''])"

definition rx_scale_auto :: rx where
  \<comment> \<open>\<open>(\[.+\]|\d+|px|auto|0\.5|1\.5|2\.5|3\.5)\<close>\<close>
  "rx_scale_auto =
     Alts ([Bracket, Digits] @ map Lit [''px'', ''auto'', ''0.5'', ''1.5'', ''2.5'', ''3.5''])"

definition rx_size :: rx where
  \<comment> \<open>\<open>(\[.+\]|\d+\/\d+|\d+|px|auto|full|screen|min|max|fit)\<close>\<close>
  "rx_size =
     Alts ([Bracket, Cats [Digits, Ch CHR ''/'', Digits], Digits]
           @ map Lit [''px'', ''auto'', ''full'', ''screen'', ''min'', ''max'', ''fit''])"

definition rx_radius :: rx where
  \<comment> \<open>\<open>(-none|-sm|-md|-lg|-xl|-2xl|-3xl|-full|-\[.+\])?\<close>\<close>
  "rx_radius =
     Opt (Alts (map Lit [''-none'', ''-sm'', ''-md'', ''-lg'', ''-xl'', ''-2xl'', ''-3xl'', ''-full'']
                @ [Cat (Ch CHR ''-'') Bracket]))"

definition rx_side_width :: rx where
  \<comment> \<open>\<open>(-\d+|-\[.+\])?\<close>\<close>
  "rx_side_width = Opt (Alt (Cat (Ch CHR ''-'') Digits) (Cat (Ch CHR ''-'') Bracket))"

definition rx_named_color :: rx where
  \<comment> \<open>\<open>((\w+)(-\d+)?|\[.+\])\<close>\<close>
  "rx_named_color =
     Alt (Cat (Plus (Sym is_word)) (Opt (Cat (Ch CHR ''-'') Digits))) Bracket"

definition rx_fontSize :: rx where
  \<comment> \<open>\<open>/^text-(?!(?:left|center|right|justify|start|end)(?:\s|$)).+$/\<close>\<close>
  "rx_fontSize =
     Cats [Lit ''text-'',
           NegLook (Cat (Words [''left'', ''center'', ''right'', ''justify'', ''start'', ''end''])
                        (Alt (Sym is_space) Eol)),
           Plus Dot, Eol]"

definition rx_color :: rx where
  \<comment> \<open>\<open>/^text-(?!(?:xs|sm|base|lg|xl|2xl|3xl|4xl|5xl|6xl|7xl|8xl|9xl|left|center|right|justify|start|end)(?:\s|$)).+$/\<close>\<close>
  "rx_color =
     Cats [Lit ''text-'',
           NegLook (Cat (Words [''xs'', ''sm'', ''base'', ''lg'', ''xl'', ''2xl'', ''3xl'', ''4xl'',
                                ''5xl'', ''6xl'', ''7xl'', ''8xl'', ''9xl'', ''left'', ''center'',
                                ''right'', ''justify'', ''start'', ''end''])
                        (Alt (Sym is_space) Eol)),
           Plus Dot, Eol]"

definition rx_backgroundColor :: rx where
  \<comment> \<open>\<open>/^bg-(?!(?:auto|cover|...|gradient-to-tl)$)((\w+)(-\d+)?|\[.+\])$/\<close>\<close>
  "rx_backgroundColor =
     Cats [Lit ''bg-'',
           NegLook (Cat (Words [''auto'', ''cover'', ''contain'', ''bottom'', ''center'', ''left'',
                                ''left-bottom'', ''left-top'', ''right'', ''right-bottom'',
                                ''right-top'', ''top'', ''repeat'', ''no-repeat'', ''repeat-x'',
                                ''repeat-y'', ''repeat-round'', ''repeat-space'', ''none'',
                                ''gradient-to-t'', ''gradient-to-tr'', ''gradient-to-r'',
                                ''gradient-to-br'', ''gradient-to-b'', ''gradient-to-bl'',
                                ''gradient-to-l'', ''gradient-to-tl''])
                        Eol),
           rx_named_color, Eol]"

definition rx_borderColor :: rx where
  \<comment> \<open>\<open>/^border-(?!(?:solid|dashed|dotted|double|hidden|none)$)(?!t-|r-|b-|l-|x-|y-)((\w+)(-\d+)?|\[.+\])$/\<close>\<close>
  "rx_borderColor =
     Cats [Lit ''border-'',
           NegLook (Cat (Words [''solid'', ''dashed'', ''dotted'', ''double'', ''hidden'', ''none''])
                        Eol),
           NegLook (Words [''t-'', ''r-'', ''b-'', ''l-'', ''x-'', ''y-'']),
           rx_named_color, Eol]"

definition CLASS_PROPERTY_MAP :: "(string \<times> rx) list" where
  "CLASS_PROPERTY_MAP =
   [(''display'', anch [] (Words [''block'', ''inline-block'', ''inline'', ''flex'', ''inline-flex'',
                                   ''grid'', ''inline-grid'', ''hidden''])),
    (''flexDirection'', anch ''flex-'' (Words [''row'', ''row-reverse'', ''col'', ''col-reverse''])),
    (''flexWrap'', anch ''flex-'' (Words [''wrap'', ''wrap-reverse'', ''nowrap''])),
    (''justifyContent'', anch ''justify-'' (Words [''start'', ''end'', ''center'', ''between'',
                                                    ''around'', ''evenly'', ''stretch''])),
    (''alignItems'', anch ''items-'' (Words [''start'', ''end'', ''center'', ''baseline'',
                                              ''stretch''])),
    (''alignContent'', anch ''content-'' (Words [''start'', ''end'', ''center'', ''between'',
                                                  ''around'', ''evenly'', ''stretch''])),
    (''gap'', anch ''gap-'' rx_scale),
    (''columnGap'', anch ''gap-x-'' rx_scale),
    (''rowGap'', anch ''gap-y-'' rx_scale),
    (''gridTemplateColumns'', anch ''grid-cols-''
        (Alts ([Bracket, Digits] @ map Lit [''none'', ''subgrid'']))),
    (''gridTemplateRows'', anch ''grid-rows-''
        (Alts ([Bracket, Digits] @ map Lit [''none'', ''subgrid'']))),
    (''padding'', anch ''p-'' rx_scale),
    (''paddingTop'', anch ''pt-'' rx_scale),
    (''paddingRight'', anch ''pr-'' rx_scale),
    (''paddingBottom'', anch ''pb-'' rx_scale),
    (''paddingLeft'', anch ''pl-'' rx_scale),
    (''margin'', anch ''m-'' rx_scale_auto),
    (''marginTop'', anch ''mt-'' rx_scale_auto),
    (''marginRight'', anch ''mr-'' rx_scale_auto),
    (''marginBottom'', anch ''mb-'' rx_scale_auto),
    (''marginLeft'', anch ''ml-'' rx_scale_auto),
    (''width'', anch ''w-'' rx_size),
    (''height'', anch ''h-'' rx_size),
    (''minWidth'', anch ''min-w-''
        (Alts ([Bracket, Digits] @ map Lit [''px'', ''full'', ''min'', ''max'', ''fit'']))),
    (''minHeight'', anch ''min-h-''
        (Alts ([Bracket, Digits] @ map Lit [''px'', ''full'', ''screen'', ''min'', ''max'', ''fit'']))),
    (''maxWidth'', anch ''max-w-''
        (Alts (Bracket # map Lit [''none'', ''xs'', ''sm'', ''md'', ''lg'', ''xl'', ''2xl'', ''3xl'',
                                  ''4xl'', ''5xl'', ''6xl'', ''7xl'', ''full'', ''min'', ''max'',
                                  ''fit'', ''prose'', ''screen-sm'', ''screen-md'', ''screen-lg'',
                                  ''screen-xl'', ''screen-2xl'']))),
    (''maxHeight'', anch ''max-h-''
        (Alts ([Bracket, Digits] @ map Lit [''px'', ''full'', ''screen'', ''min'', ''max'', ''fit'']))),
    (''fontFamily'', anch ''font-'' (Alts (map Lit [''sans'', ''serif'', ''mono''] @ [Bracket]))),
    (''fontSize'', rx_fontSize),
    (''fontWeight'', anch ''font-''
        (Alts (map Lit [''thin'', ''extralight'', ''light'', ''normal'', ''medium'', ''semibold'',
                        ''bold'', ''extrabold'', ''black''] @ [Bracket]))),
    (''lineHeight'', anch ''leading-''
        (Alts (map Lit [''none'', ''tight'', ''snug'', ''normal'', ''relaxed'', ''loose'']
               @ [Digits, Bracket]))),
    (''letterSpacing'', anch ''tracking-''
        (Alts (map Lit [''tighter'', ''tight'', ''normal'', ''wide'', ''wider'', ''widest'']
               @ [Bracket]))),
    (''textAlign'', anch ''text-'' (Words [''left'', ''center'', ''right'', ''justify'', ''start'',
                                            ''end''])),
    (''textTransform'', anch [] (Words [''uppercase'', ''lowercase'', ''capitalize'',
                                         ''normal-case''])),
    (''textDecoration'', anch [] (Words [''underline'', ''overline'', ''line-through'',
                                          ''no-underline''])),
    (''color'', rx_color),
    (''backgroundColor'', rx_backgroundColor),
    (''backgroundSize'', anch ''bg-'' (Alts (map Lit [''auto'', ''cover'', ''contain''] @ [Bracket]))),
    (''backgroundPosition'', anch ''bg-''
        (Alts (map Lit [''bottom'', ''center'', ''left'', ''left-bottom'', ''left-top'', ''right'',
                        ''right-bottom'', ''right-top'', ''top''] @ [Bracket]))),
    (''backgroundRepeat'', anch ''bg-'' (Words [''repeat'', ''no-repeat'', ''repeat-x'', ''repeat-y'',
                                                 ''repeat-round'', ''repeat-space''])),
    (''backgroundImage'', anch ''bg-''
        (Alts (map Lit [''none'', ''gradient-to-t'', ''gradient-to-tr'', ''gradient-to-r'',
                        ''gradient-to-br'', ''gradient-to-b'', ''gradient-to-bl'',
                        ''gradient-to-l'', ''gradient-to-tl''] @ [Bracket]))),
    (''borderWidth'', anch ''border'' rx_side_width),
    (''borderTopWidth'', anch ''border-t'' rx_side_width),
    (''borderRightWidth'', anch ''border-r'' rx_side_width),
    (''borderBottomWidth'', anch ''border-b'' rx_side_width),
    (''borderLeftWidth'', anch ''border-l'' rx_side_width),
    (''borderStyle'', anch ''border-'' (Words [''solid'', ''dashed'', ''dotted'', ''double'',
                                                ''hidden'', ''none''])),
    (''borderColor'', rx_borderColor),
    (''borderRadius'', anch ''rounded'' rx_radius),
    (''borderTopLeftRadius'', anch ''rounded-tl'' rx_radius),
    (''borderTopRightRadius'', anch ''rounded-tr'' rx_radius),
    (''borderBottomRightRadius'', anch ''rounded-br'' rx_radius),
    (''borderBottomLeftRadius'', anch ''rounded-bl'' rx_radius),
    (''opacity'', anch ''opacity-'' (Alt Digits Bracket)),
    (''boxShadow'', anch ''shadow''
        (Opt (Alts (map Lit [''-none'', ''-sm'', ''-md'', ''-lg'', ''-xl'', ''-2xl'', ''-inner'']
                    @ [Cat (Ch CHR ''-'') Bracket])))),
    (''position'', anch [] (Words [''static'', ''fixed'', ''absolute'', ''relative'', ''sticky''])),
    (''top'', anch ''top-'' rx_scale_auto),
    (''right'', anch ''right-'' rx_scale_auto),
    (''bottom'', anch ''bottom-'' rx_scale_auto),
    (''left'', anch ''left-'' rx_scale_auto),
    (''zIndex'', anch ''z-'' (Alts ([Bracket, Digits] @ [Lit ''auto''])))]"

text \<open>
  \<open>getConflictingClassPattern\<close> (lines 191 to 193) on the own keys of the registry, the
  property names of the design categories; every other name has no pattern here. (Under
  the name of a member of \<open>Object.prototype\<close> the lookup of the source finds that member,
  which is no pattern; those names are outside this model.)
\<close>

definition getConflictingClassPattern :: "string \<Rightarrow> rx option" where
  "getConflictingClassPattern property = map_of CLASS_PROPERTY_MAP property"

section \<open>Conflict resolution\<close>

text \<open>
  \<open>extractArbitraryValue\<close> searches \<open>/\[([^\]]+)\]/\<close> from the left. At an opening bracket
  the group takes the longest run of characters other than \<open>]\<close>; the match needs the run
  to be non-empty and a \<open>]\<close> to follow it (a shorter run is followed by a character of the
  run, never by \<open>]\<close>). The result, when there is one, is a non-empty string.
\<close>

fun extractArbitraryValue :: "string \<Rightarrow> string option" where
  "extractArbitraryValue [] = None"
| "extractArbitraryValue (c # cs) =
     (if c = CHR ''['' \<and> takeWhile (\<lambda>x. x \<noteq> CHR '']'') cs \<noteq> []
         \<and> dropWhile (\<lambda>x. x \<noteq> CHR '']'') cs \<noteq> []
      then Some (takeWhile (\<lambda>x. x \<noteq> CHR '']'') cs)
      else extractArbitraryValue cs)"

text \<open>The callback that \<open>removeConflictingClasses\<close> passes to \<open>filter\<close> (lines 215 to 259):
  \<open>True\<close> keeps the class.\<close>

definition rcc_keep :: "string \<Rightarrow> rx \<Rightarrow> string \<Rightarrow> bool" where
  "rcc_keep property pattern cls =
     (if \<not> rx_test pattern cls then True
      else if startsWith cls ''text-[''
              \<and> (case extractArbitraryValue cls of
                    None \<Rightarrow> False
                  | Some v \<Rightarrow> (property = ''fontSize'' \<and> isColorValue v)
                              \<or> (property = ''color'' \<and> \<not> isColorValue v)) then True
      else if startsWith cls ''bg-[''
              \<and> (case extractArbitraryValue cls of
                    None \<Rightarrow> False
                  | Some v \<Rightarrow> (property = ''backgroundColor'' \<and> isImageValue v)
                              \<or> (property = ''backgroundImage'' \<and> \<not> isImageValue v)) then True
      else False)"

definition removeConflictingClasses :: "string list \<Rightarrow> string \<Rightarrow> string list" where
  "removeConflictingClasses classes property =
     (case getConflictingClassPattern property of
        None \<Rightarrow> classes
      | Some pattern \<Rightarrow> filter (rcc_keep property pattern) classes)"

definition getAffectedProperties :: "string \<Rightarrow> string list" where
  "getAffectedProperties className =
     (if startsWith className ''text-['' \<and> extractArbitraryValue className \<noteq> None then
        (if isColorValue (the (extractArbitraryValue className)) then [''color'']
         else [''fontSize''])
      else if startsWith className ''bg-['' \<and> extractArbitraryValue className \<noteq> None then
        (if isImageValue (the (extractArbitraryValue className)) then [''backgroundImage'']
         else [''backgroundColor''])
      else map fst (filter (\<lambda>(property, pattern). rx_test pattern className) CLASS_PROPERTY_MAP))"

definition removeConflictsForClass :: "string list \<Rightarrow> string \<Rightarrow> string list" where
  "removeConflictsForClass existingClasses newClass =
     foldl removeConflictingClasses existingClasses (getAffectedProperties newClass)"

section \<open>Breakpoints and interaction states\<close>

datatype Breakpoint = Mobile | Tablet | Desktop

datatype UIState = Neutral | Hover | Focus | Active | Disabled | Current

record breakpoint_entry =
  prefix :: string
  minWidth :: "nat option"

text \<open>\<open>BREAKPOINT_CONFIG\<close> (lines 954 to 958) and \<open>UI_STATE_CONFIG\<close> (lines 963 to 970),
  entry by entry as the source has them.\<close>

fun BREAKPOINT_CONFIG :: "Breakpoint \<Rightarrow> breakpoint_entry" where
  "BREAKPOINT_CONFIG Mobile = \<lparr>prefix = [], minWidth = None\<rparr>"
| "BREAKPOINT_CONFIG Tablet = \<lparr>prefix = ''md:'', minWidth = Some 768\<rparr>"
| "BREAKPOINT_CONFIG Desktop = \<lparr>prefix = ''lg:'', minWidth = Some 1024\<rparr>"

fun UI_STATE_CONFIG :: "UIState \<Rightarrow> string" where
  "UI_STATE_CONFIG Neutral = []"
| "UI_STATE_CONFIG Hover = ''hover:''"
| "UI_STATE_CONFIG Focus = ''focus:''"
| "UI_STATE_CONFIG Active = ''active:''"
| "UI_STATE_CONFIG Disabled = ''disabled:''"
| "UI_STATE_CONFIG Current = ''visited:''"

definition getBreakpointPrefix :: "Breakpoint \<Rightarrow> string" where
  "getBreakpointPrefix breakpoint = prefix (BREAKPOINT_CONFIG breakpoint)"

definition getUIStatePrefix :: "UIState \<Rightarrow> string" where
  "getUIStatePrefix state = UI_STATE_CONFIG state"

text \<open>\<open>parseBreakpointClass\<close> (lines 1045 to 1063) returns the breakpoint and the base
  class.\<close>

definition parseBreakpointClass :: "string \<Rightarrow> Breakpoint \<times> string" where
  "parseBreakpointClass className =
     (if startsWith className ''max-md:'' then (Mobile, slice 7 className)
      else if startsWith className ''max-lg:'' then (Tablet, slice 7 className)
      else if startsWith className ''lg:'' then (Desktop, slice 3 className)
      else if startsWith className ''md:'' then (Tablet, slice 3 className)
      else (Desktop, className))"

text \<open>\<open>addBreakpointPrefix\<close> (lines 1071 to 1074): an empty prefix is falsy.\<close>

definition addBreakpointPrefix :: "Breakpoint \<Rightarrow> string \<Rightarrow> string" where
  "addBreakpointPrefix breakpoint className =
     (let pfx = getBreakpointPrefix breakpoint
      in if pfx \<noteq> [] then pfx @ className else className)"

section \<open>Inheritance across breakpoints\<close>

definition shouldIncludeClassForProperty :: "string \<Rightarrow> string \<Rightarrow> rx \<Rightarrow> bool" where
  "shouldIncludeClassForProperty className property pattern =
     (if \<not> rx_test pattern className then False
      else if startsWith className ''text-[''
              \<and> (case extractArbitraryValue className of
                    None \<Rightarrow> False
                  | Some v \<Rightarrow> (property = ''fontSize'' \<and> isColorValue v)
                              \<or> (property = ''color'' \<and> \<not> isColorValue v)) then False
      else if startsWith className ''bg-[''
              \<and> (case extractArbitraryValue className of
                    None \<Rightarrow> False
                  | Some v \<Rightarrow> (property = ''backgroundColor'' \<and> isImageValue v)
                              \<or> (property = ''backgroundImage'' \<and> \<not> isImageValue v)) then False
      else True)"

definition rx_state_prefix :: rx where
  \<comment> \<open>\<open>/^(hover|focus|active|disabled|visited):/\<close>\<close>
  "rx_state_prefix =
     Cat (Words [''hover'', ''focus'', ''active'', ''disabled'', ''visited'']) (Ch CHR '':'')"

definition rx_any_prefix :: rx where
  \<comment> \<open>\<open>/^(max-lg|max-md|hover|focus|active|disabled|visited):/\<close>\<close>
  "rx_any_prefix =
     Cat (Words [''max-lg'', ''max-md'', ''hover'', ''focus'', ''active'', ''disabled'', ''visited''])
         (Ch CHR '':'')"

record inherited =
  inh_value :: "string option"
  inh_source :: "Breakpoint option"

text \<open>The inheritance chain of \<open>getInheritedValue\<close> (lines 1183 to 1186).\<close>

fun inheritanceChain :: "Breakpoint \<Rightarrow> Breakpoint list" where
  "inheritanceChain Mobile = [Desktop, Tablet, Mobile]"
| "inheritanceChain Tablet = [Desktop, Tablet]"
| "inheritanceChain Desktop = [Desktop]"

text \<open>The two searches of the loop body: the callbacks given to \<open>classes.find\<close> at lines
  1199 and 1215.\<close>

definition isStateClass :: "string \<Rightarrow> rx \<Rightarrow> string \<Rightarrow> string \<Rightarrow> string \<Rightarrow> bool" where
  "isStateClass property pattern bpPrefix statePrefix cls =
     (let fullPrefix = bpPrefix @ statePrefix;
          withPrefix = (if bpPrefix \<noteq> [] then startsWith cls fullPrefix
                        else startsWith cls statePrefix)
      in if \<not> withPrefix then False
         else shouldIncludeClassForProperty (slice (length fullPrefix) cls) property pattern)"

definition isNeutralClass :: "string \<Rightarrow> rx \<Rightarrow> string \<Rightarrow> string \<Rightarrow> bool" where
  "isNeutralClass property pattern bpPrefix cls =
     (if bpPrefix \<noteq> [] then
        (if \<not> startsWith cls bpPrefix then False
         else if rx_test rx_state_prefix (slice (length bpPrefix) cls) then False
         else shouldIncludeClassForProperty (slice (length bpPrefix) cls) property pattern)
      else
        (if rx_test rx_any_prefix cls then False
         else shouldIncludeClassForProperty cls property pattern))"

text \<open>A string is truthy when it is not empty; \<open>null\<close> (\<open>None\<close>) and a missing \<open>find\<close>
  result are falsy.\<close>

definition truthy :: "string option \<Rightarrow> bool" where
  "truthy v = (case v of None \<Rightarrow> False | Some s \<Rightarrow> s \<noteq> [])"

text \<open>One round of the loop at lines 1192 to 1248, on the pair \<open>lastValue\<close>,
  \<open>lastSource\<close>.\<close>

definition inheritStep ::
  "string list \<Rightarrow> string \<Rightarrow> rx \<Rightarrow> UIState \<Rightarrow> inherited \<Rightarrow> Breakpoint \<Rightarrow> inherited" where
  "inheritStep classes property pattern currentUIState lastFound breakpoint =
     (let bpPrefix = getBreakpointPrefix breakpoint;
          statePrefix = getUIStatePrefix currentUIState;
          fullPrefix = bpPrefix @ statePrefix;
          stateClass = (if currentUIState \<noteq> Neutral
                        then find (isStateClass property pattern bpPrefix statePrefix) classes
                        else None);
          last1 = (if truthy stateClass
                   then \<lparr>inh_value = Some (slice (length fullPrefix) (the stateClass)),
                         inh_source = Some breakpoint\<rparr>
                   else lastFound);
          neutralClass = find (isNeutralClass property pattern bpPrefix) classes
      in if truthy neutralClass then
           (let baseClass = (if bpPrefix \<noteq> [] then slice (length bpPrefix) (the neutralClass)
                             else the neutralClass)
            in if currentUIState = Neutral
               then \<lparr>inh_value = Some baseClass, inh_source = Some breakpoint\<rparr>
               else if \<not> truthy (inh_value last1)
               then \<lparr>inh_value = Some baseClass, inh_source = Some breakpoint\<rparr>
               else last1)
         else last1)"

definition getInheritedValue ::
  "string list \<Rightarrow> string \<Rightarrow> Breakpoint \<Rightarrow> UIState \<Rightarrow> inherited" where
  "getInheritedValue classes property currentBreakpoint currentUIState =
     (case getConflictingClassPattern property of
        None \<Rightarrow> \<lparr>inh_value = None, inh_source = None\<rparr>
      | Some pattern \<Rightarrow>
          foldl (inheritStep classes property pattern currentUIState)
                \<lparr>inh_value = None, inh_source = None\<rparr>
                (inheritanceChain currentBreakpoint))"

text \<open>The tokens the two searches find at one breakpoint, named for the statements
  below.\<close>

definition neutralAt :: "string list \<Rightarrow> string \<Rightarrow> rx \<Rightarrow> Breakpoint \<Rightarrow> string option" where
  "neutralAt classes property pattern b =
     find (isNeutralClass property pattern (getBreakpointPrefix b)) classes"

definition stateAt ::
  "string list \<Rightarrow> string \<Rightarrow> rx \<Rightarrow> Breakpoint \<Rightarrow> UIState \<Rightarrow> string option" where
  "stateAt classes property pattern b st =
     find (isStateClass property pattern (getBreakpointPrefix b) (getUIStatePrefix st)) classes"

section \<open>From a design property to a class\<close>

















section \<open>From classes to a design object\<close>

text \<open>
  A design object maps each category to the map of its properties. Both are association
  lists in insertion order, as JavaScript objects are; an assignment to a property
  updates it in place or appends it. \<open>classesToDesign\<close> creates the eight categories and
  only ever assigns inside them.
\<close>

type_synonym properties = "(string \<times> string) list"

type_synonym design = "(string \<times> properties) list"

definition emptyDesign :: design where
  "emptyDesign =
     [(''layout'', []), (''typography'', []), (''spacing'', []), (''sizing'', []),
      (''borders'', []), (''backgrounds'', []), (''effects'', []), (''positioning'', [])]"

definition setProp :: "string \<Rightarrow> string \<Rightarrow> string \<Rightarrow> design \<Rightarrow> design" where
  \<comment> \<open>\<open>design.category!.property = v\<close>\<close>
  "setProp category property v d = AList.map_entry category (AList.update property v) d"


text \<open>\<open>s.replace(pat, rep)\<close> with a string pattern replaces the first occurrence.\<close>

fun replace_first :: "string \<Rightarrow> string \<Rightarrow> string \<Rightarrow> string" where
  "replace_first pat rep [] = (if pat = [] then rep else [])"
| "replace_first pat rep (c # cs) =
     (if startsWith (c # cs) pat then rep @ drop (length pat) (c # cs)
      else c # replace_first pat rep cs)"

text \<open>
  The statements of the loop body of \<open>classesToDesign\<close> come in four shapes:
  \<open>if (cls === name) design.c.p = v\<close>; \<open>if (cond) { value = extractArbitraryValue(cls);
  if (value) design.c.p = value }\<close>; \<open>if (cls.startsWith(pfx)) { value = cls.replace(pfx,
  ''); if (allowed.includes(value)) design.c.p = value }\<close>; and a chain of \<open>else if\<close> over
  prefixes, each arm of the second shape.
\<close>

type_synonym rule = "string \<Rightarrow> design \<Rightarrow> design"

definition litRule :: "string \<Rightarrow> string \<Rightarrow> string \<Rightarrow> string \<Rightarrow> rule" where
  "litRule name category property v cls d =
     (if cls = name then setProp category property v d else d)"

definition arbRule :: "(string \<Rightarrow> bool) \<Rightarrow> string \<Rightarrow> string \<Rightarrow> rule" where
  "arbRule cond category property cls d =
     (if cond cls then
        (case extractArbitraryValue cls of
           None \<Rightarrow> d
         | Some v \<Rightarrow> setProp category property v d)
      else d)"

definition kwRule :: "string \<Rightarrow> string list \<Rightarrow> string \<Rightarrow> string \<Rightarrow> rule" where
  "kwRule pfx allowed category property cls d =
     (if startsWith cls pfx then
        (let v = replace_first pfx [] cls
         in if v \<in> set allowed then setProp category property v d else d)
      else d)"

fun chainRule :: "(string \<times> string \<times> string) list \<Rightarrow> rule" where
  "chainRule [] cls d = d"
| "chainRule ((pfx, category, property) # arms) cls d =
     (if startsWith cls pfx then
        (case extractArbitraryValue cls of
           None \<Rightarrow> d
         | Some v \<Rightarrow> setProp category property v d)
      else chainRule arms cls d)"

definition applyRules :: "rule list \<Rightarrow> string \<Rightarrow> design \<Rightarrow> design" where
  "applyRules rules cls d = foldl (\<lambda>acc r. r cls acc) d rules"

definition pre :: "string \<Rightarrow> string \<Rightarrow> bool" where
  "pre pfx cls = startsWith cls pfx"

text \<open>Lines 660 to 707: the layout statements, in order.\<close>

definition layoutRules :: "rule list" where
  "layoutRules =
     [litRule ''block'' ''layout'' ''display'' ''block'',
      litRule ''inline-block'' ''layout'' ''display'' ''inline-block'',
      litRule ''inline'' ''layout'' ''display'' ''inline'',
      litRule ''flex'' ''layout'' ''display'' ''flex'',
      litRule ''inline-flex'' ''layout'' ''display'' ''inline-flex'',
      litRule ''grid'' ''layout'' ''display'' ''grid'',
      litRule ''inline-grid'' ''layout'' ''display'' ''inline-grid'',
      litRule ''hidden'' ''layout'' ''display'' ''hidden'',
      litRule ''flex-row'' ''layout'' ''flexDirection'' ''row'',
      litRule ''flex-row-reverse'' ''layout'' ''flexDirection'' ''row-reverse'',
      litRule ''flex-col'' ''layout'' ''flexDirection'' ''column'',
      litRule ''flex-col-reverse'' ''layout'' ''flexDirection'' ''column-reverse'',
      kwRule ''justify-'' [''start'', ''end'', ''center'', ''between'', ''around'', ''evenly'',
                           ''stretch''] ''layout'' ''justifyContent'',
      kwRule ''items-'' [''start'', ''end'', ''center'', ''baseline'', ''stretch'']
             ''layout'' ''alignItems'',
      arbRule (pre ''gap-['') ''layout'' ''gap'',
      arbRule (pre ''grid-cols-['') ''layout'' ''gridTemplateColumns'',
      arbRule (pre ''grid-rows-['') ''layout'' ''gridTemplateRows'']"

text \<open>Lines 719 to 944: the statements after the colour check of \<open>text-[...]\<close>, in
  order.\<close>

definition laterRules :: "rule list" where
  "laterRules =
     [arbRule (pre ''text-['') ''typography'' ''fontSize'',
      arbRule (\<lambda>cls. startsWith cls ''font-['' \<and> \<not> str_includes cls ''sans''
                      \<and> \<not> str_includes cls ''serif'' \<and> \<not> str_includes cls ''mono'')
              ''typography'' ''fontWeight'',
      litRule ''font-thin'' ''typography'' ''fontWeight'' ''100'',
      litRule ''font-extralight'' ''typography'' ''fontWeight'' ''200'',
      litRule ''font-light'' ''typography'' ''fontWeight'' ''300'',
      litRule ''font-normal'' ''typography'' ''fontWeight'' ''400'',
      litRule ''font-medium'' ''typography'' ''fontWeight'' ''500'',
      litRule ''font-semibold'' ''typography'' ''fontWeight'' ''600'',
      litRule ''font-bold'' ''typography'' ''fontWeight'' ''700'',
      litRule ''font-extrabold'' ''typography'' ''fontWeight'' ''800'',
      litRule ''font-black'' ''typography'' ''fontWeight'' ''900'',
      arbRule (\<lambda>cls. startsWith cls ''font-['' \<and> (str_includes cls ''sans''
                      \<or> str_includes cls ''serif'' \<or> str_includes cls ''mono''
                      \<or> str_includes cls '',''))
              ''typography'' ''fontFamily'',
      litRule ''font-sans'' ''typography'' ''fontFamily'' ''sans-serif'',
      litRule ''font-serif'' ''typography'' ''fontFamily'' ''serif'',
      litRule ''font-mono'' ''typography'' ''fontFamily'' ''monospace'',
      litRule ''text-left'' ''typography'' ''textAlign'' ''left'',
      litRule ''text-center'' ''typography'' ''textAlign'' ''center'',
      litRule ''text-right'' ''typography'' ''textAlign'' ''right'',
      litRule ''text-justify'' ''typography'' ''textAlign'' ''justify'',
      litRule ''uppercase'' ''typography'' ''textTransform'' ''uppercase'',
      litRule ''lowercase'' ''typography'' ''textTransform'' ''lowercase'',
      litRule ''capitalize'' ''typography'' ''textTransform'' ''capitalize'',
      litRule ''normal-case'' ''typography'' ''textTransform'' ''none'',
      litRule ''underline'' ''typography'' ''textDecoration'' ''underline'',
      litRule ''line-through'' ''typography'' ''textDecoration'' ''line-through'',
      litRule ''no-underline'' ''typography'' ''textDecoration'' ''none'',
      arbRule (pre ''leading-['') ''typography'' ''lineHeight'',
      arbRule (pre ''tracking-['') ''typography'' ''letterSpacing'',
      chainRule [(''p-['', ''spacing'', ''padding''), (''pt-['', ''spacing'', ''paddingTop''),
                 (''pr-['', ''spacing'', ''paddingRight''),
                 (''pb-['', ''spacing'', ''paddingBottom''),
                 (''pl-['', ''spacing'', ''paddingLeft'')],
      chainRule [(''m-['', ''spacing'', ''margin''), (''mt-['', ''spacing'', ''marginTop''),
                 (''mr-['', ''spacing'', ''marginRight''),
                 (''mb-['', ''spacing'', ''marginBottom''),
                 (''ml-['', ''spacing'', ''marginLeft'')],
      arbRule (pre ''w-['') ''sizing'' ''width'',
      arbRule (pre ''h-['') ''sizing'' ''height'',
      arbRule (pre ''min-w-['') ''sizing'' ''minWidth'',
      arbRule (pre ''min-h-['') ''sizing'' ''minHeight'',
      arbRule (pre ''max-w-['') ''sizing'' ''maxWidth'',
      arbRule (pre ''max-h-['') ''sizing'' ''maxHeight'',
      chainRule [(''rounded-['', ''borders'', ''borderRadius''),
                 (''rounded-tl-['', ''borders'', ''borderTopLeftRadius''),
                 (''rounded-tr-['', ''borders'', ''borderTopRightRadius''),
                 (''rounded-br-['', ''borders'', ''borderBottomRightRadius''),
                 (''rounded-bl-['', ''borders'', ''borderBottomLeftRadius'')],
      arbRule (\<lambda>cls. startsWith cls ''border-['' \<and> \<not> str_includes cls ''#''
                      \<and> \<not> str_includes cls ''rgb'')
              ''borders'' ''borderWidth'',
      litRule ''border-solid'' ''borders'' ''borderStyle'' ''solid'',
      litRule ''border-dashed'' ''borders'' ''borderStyle'' ''dashed'',
      litRule ''border-dotted'' ''borders'' ''borderStyle'' ''dotted'',
      litRule ''border-double'' ''borders'' ''borderStyle'' ''double'',
      litRule ''border-none'' ''borders'' ''borderStyle'' ''none'',
      arbRule (\<lambda>cls. startsWith cls ''border-[#'' \<or> startsWith cls ''border-[rgb'')
              ''borders'' ''borderColor'',
      arbRule (\<lambda>cls. startsWith cls ''bg-[#'' \<or> startsWith cls ''bg-[rgb'')
              ''backgrounds'' ''backgroundColor'',
      arbRule (pre ''opacity-['') ''effects'' ''opacity'',
      arbRule (pre ''shadow-['') ''effects'' ''boxShadow'',
      litRule ''static'' ''positioning'' ''position'' ''static'',
      litRule ''relative'' ''positioning'' ''position'' ''relative'',
      litRule ''absolute'' ''positioning'' ''position'' ''absolute'',
      litRule ''fixed'' ''positioning'' ''position'' ''fixed'',
      litRule ''sticky'' ''positioning'' ''position'' ''sticky'',
      arbRule (pre ''top-['') ''positioning'' ''top'',
      arbRule (pre ''right-['') ''positioning'' ''right'',
      arbRule (pre ''bottom-['') ''positioning'' ''bottom'',
      arbRule (pre ''left-['') ''positioning'' ''left'',
      arbRule (pre ''z-['') ''positioning'' ''zIndex'']"

definition rx_bp_state_prefix :: rx where
  \<comment> \<open>\<open>/^(max-lg|max-md|lg|md):(hover|focus|active|disabled|visited):/\<close>\<close>
  "rx_bp_state_prefix =
     Cats [Words [''max-lg'', ''max-md'', ''lg'', ''md''], Ch CHR '':'',
           Words [''hover'', ''focus'', ''active'', ''disabled'', ''visited''], Ch CHR '':'']"

definition stripBreakpoint :: "string \<Rightarrow> string" where
  \<comment> \<open>\<open>cls.replace(/^(max-lg|max-md|lg|md):/, '')\<close>\<close>
  "stripBreakpoint cls =
     (if startsWith cls ''max-lg:'' then drop 7 cls
      else if startsWith cls ''max-md:'' then drop 7 cls
      else if startsWith cls ''lg:'' then drop 3 cls
      else if startsWith cls ''md:'' then drop 3 cls
      else cls)"

text \<open>What the loop body does with a class once the prefixes are dealt with (lines 660 to
  944): the layout statements, the colour check with its early \<open>return\<close>, the rest.\<close>

definition parseBase :: "design \<Rightarrow> string \<Rightarrow> design" where
  "parseBase d cls =
     (let d1 = applyRules layoutRules cls d
      in if startsWith cls ''text-[''
            \<and> (case extractArbitraryValue cls of None \<Rightarrow> False | Some v \<Rightarrow> isColorValue v)
         then setProp ''typography'' ''color'' (the (extractArbitraryValue cls)) d1
         else applyRules laterRules cls d1)"

text \<open>The loop body (lines 642 to 945) and \<open>classesToDesign\<close> on a list of classes and
  on a class string.\<close>

definition parseClass :: "design \<Rightarrow> string \<Rightarrow> design" where
  "parseClass d cls =
     (if rx_test rx_state_prefix cls then d
      else if rx_test rx_bp_state_prefix cls then d
      else parseBase d (stripBreakpoint cls))"

definition classesToDesign :: "string list \<Rightarrow> design" where
  "classesToDesign classList = foldl parseClass emptyDesign classList"

fun split_on :: "char \<Rightarrow> string \<Rightarrow> string list" where
  "split_on sep [] = [[]]"
| "split_on sep (c # cs) =
     (if c = sep then [] # split_on sep cs
      else (case split_on sep cs of [] \<Rightarrow> [[c]] | w # ws \<Rightarrow> (c # w) # ws))"

definition classTokens :: "string \<Rightarrow> string list" where
  \<comment> \<open>\<open>s.split(' ').filter(Boolean)\<close>\<close>
  "classTokens s = filter (\<lambda>w. w \<noteq> []) (split_on CHR '' '' s)"

definition classesToDesignString :: "string \<Rightarrow> design" where
  "classesToDesignString classes = classesToDesign (classTokens classes)"

text \<open>The state and breakpoint prefixes of the claims about \<open>classesToDesign\<close>, and the
  eight category keys.\<close>

definition statePrefixes :: "string list" where
  "statePrefixes = [''hover:'', ''focus:'', ''active:'', ''disabled:'', ''visited:'']"

definition breakpointPrefixes :: "string list" where
  "breakpointPrefixes = [''max-lg:'', ''max-md:'', ''lg:'', ''md:'']"

definition categoryKeys :: "string list" where
  "categoryKeys =
     [''layout'', ''typography'', ''spacing'', ''sizing'', ''borders'', ''backgrounds'',
      ''effects'', ''positioning'']"

section \<open>Families and values of the round trip\<close>









section \<open>The canvas renderer: classes at a breakpoint\<close>

text \<open>\<open>xs.join(sep)\<close>.\<close>

fun joinWith :: "string \<Rightarrow> string list \<Rightarrow> string" where
  "joinWith sep [] = []"
| "joinWith sep [x] = x"
| "joinWith sep (x # y # ys) = x @ sep @ joinWith sep (y # ys)"

text \<open>
  \<open>filterClassesByBreakpoint\<close> (lines 130 to 169 of the renderer). The breakpoint is the
  string the host sends. \<open>keptAtBreakpoint\<close> is the body of the loop: \<open>True\<close> where the
  class is pushed to \<open>filtered\<close>.
\<close>

definition keptAtBreakpoint :: "string \<Rightarrow> string \<Rightarrow> bool" where
  "keptAtBreakpoint breakpoint cls =
     (let hasMd = (startsWith cls ''md:'' \<or> str_includes cls '' md:'');
          hasLg = (startsWith cls ''lg:'' \<or> str_includes cls '' lg:'')
      in if \<not> hasMd \<and> \<not> hasLg then True
         else if breakpoint = ''mobile'' then False
         else if breakpoint = ''tablet'' then hasMd \<and> \<not> hasLg
         else if breakpoint = ''desktop'' then hasMd \<or> hasLg
         else False)"

definition filterClassesByBreakpoint :: "string \<Rightarrow> string \<Rightarrow> string" where
  "filterClassesByBreakpoint classesString breakpoint =
     (if classesString = [] then classesString
      else joinWith '' '' (filter (keptAtBreakpoint breakpoint) (classTokens classesString)))"

section \<open>The canvas renderer: text of a layer\<close>

text \<open>
  The data \<open>getText\<close> reads (lines 390 to 472 of the renderer). A text is a string or a
  variable object with a \<open>type\<close> and possibly a \<open>data.field_id\<close>. The inline content
  \<open>variables.text\<close> has a template \<open>data\<close> and an object \<open>variables\<close> from placeholder ids
  to variable objects. An item of a collection is an object from field ids to values
  (strings here). \<open>collectionFields\<close>, module state of the renderer, is an object from
  collection ids to arrays of fields; it is a parameter of the model. The three objects are
  read with \<open>obj[key]\<close>, so a key may find a member of \<open>Object.prototype\<close>: \<open>Member k\<close> is
  the one named \<open>k\<close>, returned as it is where the text of the layer is a field variable. A
  \<open>TypeError\<close> of the source is the result \<open>Inl TypeError\<close>. The calls of \<open>console.log\<close> are
  left out; they read \<open>fieldsForCollection.length\<close>, which every value here has or lacks
  without an error, and \<open>fieldsForCollection.map\<close> only behind the call of \<open>some\<close>.
\<close>

datatype js_error = TypeError

datatype text_value = Str string | Variable string "string option" | Member string

record inline_variable =
  var_type :: string
  var_field_id :: "string option"

record inline_content =
  ic_data :: "string option"
  ic_variables :: "(string \<times> inline_variable) list option"

record layer =
  layer_text :: "text_value option"
  layer_content :: "text_value option"
  layer_variables_text :: "inline_content option"

record collection_field =
  field_id :: string
  field_name :: string

definition textTruthy :: "text_value option \<Rightarrow> bool" where
  "textTruthy t =
     (case t of None \<Rightarrow> False | Some (Str s) \<Rightarrow> s \<noteq> [] | Some (Variable ty f) \<Rightarrow> True
      | Some (Member k) \<Rightarrow> True)"

text \<open>
  A global \<open>replace\<close> with a regular expression walks the string from the left; where the
  pattern matches, the match is replaced and the walk goes on behind it. \<open>m\<close> is the
  match at the start of a string: the captured group and the rest behind the match. The
  two patterns of \<open>getText\<close> never match the empty string. \<open>replaceAll\<close> replaces by what
  \<open>f\<close> gives for the group; \<open>replaceWith\<close> is the same walk with a callback that may
  throw, and then the replacement throws.
\<close>

function replaceAll ::
  "(string \<Rightarrow> (string \<times> string) option) \<Rightarrow> (string \<Rightarrow> string) \<Rightarrow> string \<Rightarrow> string" where
  "replaceAll m f [] = []"
| "replaceAll m f (c # cs) =
     (case m (c # cs) of
        None \<Rightarrow> c # replaceAll m f cs
      | Some (g, rest) \<Rightarrow>
          if length rest < length (c # cs) then f g @ replaceAll m f rest
          else c # replaceAll m f cs)"
  by pat_completeness auto
termination
  by (relation "measure (\<lambda>(m, f, s). length s)") auto

definition prepend :: "string \<Rightarrow> js_error + string \<Rightarrow> js_error + string" where
  "prepend r res = (case res of Inl e \<Rightarrow> Inl e | Inr t \<Rightarrow> Inr (r @ t))"

function replaceWith ::
  "(string \<Rightarrow> (string \<times> string) option) \<Rightarrow> (string \<Rightarrow> js_error + string) \<Rightarrow> string
     \<Rightarrow> js_error + string" where
  "replaceWith m f [] = Inr []"
| "replaceWith m f (c # cs) =
     (case m (c # cs) of
        None \<Rightarrow> prepend [c] (replaceWith m f cs)
      | Some (g, rest) \<Rightarrow>
          if length rest < length (c # cs) then
            (case f g of Inl e \<Rightarrow> Inl e | Inr r \<Rightarrow> prepend r (replaceWith m f rest))
          else prepend [c] (replaceWith m f cs))"
  by pat_completeness auto
termination
  by (relation "measure (\<lambda>(m, f, s). length s)") auto

text \<open>
  The placeholder \<open>/<ycode-inline-variable id="([^"]+)"><\/ycode-inline-variable>/\<close> at the
  start of a string: the group takes the longest run without a double quote, which must
  be non-empty and followed by the closing text (a shorter run is followed by a
  character of the run, not by the quote the closing text starts with).
\<close>

definition markerOpen :: string where
  "markerOpen = ''<ycode-inline-variable id='' @ [CHR 0x22]"

definition markerClose :: string where
  "markerClose = [CHR 0x22] @ ''></ycode-inline-variable>''"

definition matchMarker :: "string \<Rightarrow> (string \<times> string) option" where
  "matchMarker s =
     (if startsWith s markerOpen then
        (let r = drop (length markerOpen) s;
             ident = takeWhile (\<lambda>x. x \<noteq> CHR 0x22) r;
             rest = dropWhile (\<lambda>x. x \<noteq> CHR 0x22) r
         in if ident \<noteq> [] \<and> startsWith rest markerClose
            then Some (ident, drop (length markerClose) rest)
            else None)
      else None)"

text \<open>
  The pattern \<open>/<ycode-inline-variable[^>]*>.*?<\/ycode-inline-variable>/\<close> of the last
  branch: the attributes run to the first \<open>>\<close>, the lazy body to the first closing tag,
  over characters that are no line terminators.
\<close>

fun findClosingTag :: "string \<Rightarrow> string option" where
  "findClosingTag [] = None"
| "findClosingTag (c # cs) =
     (if startsWith (c # cs) ''</ycode-inline-variable>''
      then Some (drop (length ''</ycode-inline-variable>'') (c # cs))
      else if is_dot c then findClosingTag cs
      else None)"

definition matchVariableTag :: "string \<Rightarrow> (string \<times> string) option" where
  "matchVariableTag s =
     (if startsWith s ''<ycode-inline-variable'' then
        (case dropWhile (\<lambda>x. x \<noteq> CHR ''>'') (drop (length ''<ycode-inline-variable'') s) of
           [] \<Rightarrow> None
         | gt # body \<Rightarrow>
             (case findClosingTag body of None \<Rightarrow> None | Some rest \<Rightarrow> Some ([], rest)))
      else None)"

text \<open>
  The callback of the replacement at lines 433 to 455, in its three steps.
  \<open>fieldOfVariable\<close> is the test of line 436: the field id of the variable stored under
  the placeholder id when that is a field variable (a member of \<open>Object.prototype\<close> has no
  \<open>type\<close>). \<open>fieldValue\<close> is lines 440 to 454 for an array of fields: nothing for a field
  that is not among them, else the value of the item. \<open>fieldsOfCollection\<close> is line 430:
  the array stored under the collection id, the empty array where there is none, and a
  member of \<open>Object.prototype\<close>, which has no method \<open>some\<close>, where the id is the name of
  one; the call at line 440 then throws.
\<close>

datatype fields_ref = Fields "collection_field list" | NotAnArray

definition fieldOfVariable :: "(string \<times> inline_variable) list \<Rightarrow> string \<Rightarrow> string option" where
  "fieldOfVariable variables variableId =
     (case js_get variables variableId of
        Own variable \<Rightarrow>
          (case var_field_id variable of
             None \<Rightarrow> None
           | Some fieldId \<Rightarrow>
               if var_type variable = ''field'' \<and> fieldId \<noteq> [] then Some fieldId else None)
      | Inherited \<Rightarrow> None
      | Missing \<Rightarrow> None)"

definition fieldValue ::
  "(string \<Rightarrow> string) \<Rightarrow> collection_field list \<Rightarrow> (string \<times> string) list \<Rightarrow> string \<Rightarrow> string" where
  "fieldValue protoText fieldsForCollection collectionItemData fieldId =
     (if \<not> list_ex (\<lambda>f. field_id f = fieldId) fieldsForCollection then []
      else (case js_get collectionItemData fieldId of
              Own v \<Rightarrow> v
            | Inherited \<Rightarrow> protoText fieldId
            | Missing \<Rightarrow> []))"

definition resolveVariable ::
  "(string \<Rightarrow> string) \<Rightarrow> (string \<times> inline_variable) list \<Rightarrow> fields_ref
     \<Rightarrow> (string \<times> string) list \<Rightarrow> string \<Rightarrow> js_error + string" where
  "resolveVariable protoText variables fieldsForCollection collectionItemData variableId =
     (case fieldOfVariable variables variableId of
        None \<Rightarrow> Inr []
      | Some fieldId \<Rightarrow>
          (case fieldsForCollection of
             NotAnArray \<Rightarrow> Inl TypeError
           | Fields fs \<Rightarrow> Inr (fieldValue protoText fs collectionItemData fieldId)))"

definition isFieldVariable :: "text_value \<Rightarrow> bool" where
  \<comment> \<open>\<open>typeof text === 'object' && text.type === 'field' && text.data && text.data.field_id\<close>\<close>
  "isFieldVariable text =
     (case text of
        Str t \<Rightarrow> False
      | Variable ty None \<Rightarrow> False
      | Variable ty (Some fieldId) \<Rightarrow> ty = ''field'' \<and> fieldId \<noteq> []
      | Member k \<Rightarrow> False)"

definition fieldsOfCollection ::
  "(string \<times> collection_field list) list \<Rightarrow> string option \<Rightarrow> fields_ref" where
  \<comment> \<open>\<open>collectionId && collectionFields[collectionId] ? collectionFields[collectionId] : []\<close>\<close>
  "fieldsOfCollection collectionFields collectionId =
     (case collectionId of
        None \<Rightarrow> Fields []
      | Some cid \<Rightarrow>
          if cid \<noteq> [] then
            (case js_get collectionFields cid of
               Own fs \<Rightarrow> Fields fs
             | Inherited \<Rightarrow> NotAnArray
             | Missing \<Rightarrow> Fields [])
          else Fields [])"

text \<open>Lines 424 to 462: the inline content with its placeholders resolved.\<close>

definition resolveInline ::
  "(string \<Rightarrow> string) \<Rightarrow> (string \<times> collection_field list) list \<Rightarrow> inline_content
     \<Rightarrow> (string \<times> string) list option \<Rightarrow> string option \<Rightarrow> js_error + string" where
  "resolveInline protoText collectionFields inlineContent collectionItemData collectionId =
     (let resolvedText = (case ic_data inlineContent of None \<Rightarrow> [] | Some t \<Rightarrow> t)
      in case (collectionItemData, ic_variables inlineContent) of
           (Some item, Some variables) \<Rightarrow>
             replaceWith matchMarker
               (resolveVariable protoText variables
                  (fieldsOfCollection collectionFields collectionId) item)
               resolvedText
         | _ \<Rightarrow> Inr (replaceAll matchMarker (\<lambda>g. []) resolvedText))"

definition layerText :: "layer \<Rightarrow> text_value" where
  \<comment> \<open>\<open>layer.text || layer.content || ''\<close>\<close>
  "layerText layer =
     (if textTruthy (layer_text layer) then the (layer_text layer)
      else if textTruthy (layer_content layer) then the (layer_content layer)
      else Str [])"

definition getText ::
  "(string \<Rightarrow> string) \<Rightarrow> (string \<times> collection_field list) list \<Rightarrow> layer
     \<Rightarrow> (string \<times> string) list option \<Rightarrow> string option \<Rightarrow> js_error + text_value" where
  "getText protoText collectionFields layer collectionItemData collectionId =
     (let text = layerText layer
      in if isFieldVariable text then
           (case (collectionItemData, text) of
              (Some item, Variable ty (Some fieldId)) \<Rightarrow>
                (case js_get item fieldId of
                   Own v \<Rightarrow> Inr (Str v)
                 | Inherited \<Rightarrow> Inr (Member fieldId)
                 | Missing \<Rightarrow> Inr (Str []))
            | _ \<Rightarrow> Inr (Str []))
         else
           (case layer_variables_text layer of
              Some inlineContent \<Rightarrow>
                (case resolveInline protoText collectionFields inlineContent collectionItemData
                        collectionId of
                   Inl e \<Rightarrow> Inl e
                 | Inr t \<Rightarrow> Inr (Str t))
            | None \<Rightarrow>
                (case text of
                   Str t \<Rightarrow>
                     if str_includes t ''<ycode-inline-variable''
                     then Inr (Str (replaceAll matchVariableTag (\<lambda>g. []) t))
                     else Inr text
                 | Variable ty f \<Rightarrow> Inr text
                 | Member k \<Rightarrow> Inr text)))"

text \<open>
  A template written as its parts: literal text and placeholders. \<open>renderTemplate\<close> is
  the string the editor stores, \<open>resolveTemplate\<close> the same parts with each placeholder
  replaced by what \<open>f\<close> gives for its id, \<open>literalText\<close> the literal text alone. The parts
  are proper when they are what the pattern finds: it matches nowhere inside a piece of
  literal text (\<open>quietText t r\<close>, for the text \<open>t\<close> with \<open>r\<close> behind it), and the id of a
  placeholder is non-empty and has no double quote.
\<close>

datatype template_part = Txt string | Placeholder string

definition marker :: "string \<Rightarrow> string" where
  "marker ident = markerOpen @ ident @ markerClose"

fun renderTemplate :: "template_part list \<Rightarrow> string" where
  "renderTemplate [] = []"
| "renderTemplate (Txt t # ps) = t @ renderTemplate ps"
| "renderTemplate (Placeholder i # ps) = marker i @ renderTemplate ps"

fun resolveTemplate :: "(string \<Rightarrow> string) \<Rightarrow> template_part list \<Rightarrow> string" where
  "resolveTemplate f [] = []"
| "resolveTemplate f (Txt t # ps) = t @ resolveTemplate f ps"
| "resolveTemplate f (Placeholder i # ps) = f i @ resolveTemplate f ps"

fun literalText :: "template_part list \<Rightarrow> string" where
  "literalText [] = []"
| "literalText (Txt t # ps) = t @ literalText ps"
| "literalText (Placeholder i # ps) = literalText ps"

fun quietText :: "string \<Rightarrow> string \<Rightarrow> bool" where
  "quietText [] r = True"
| "quietText (c # t) r = (matchMarker (c # t @ r) = None \<and> quietText t r)"

fun properParts :: "template_part list \<Rightarrow> bool" where
  "properParts [] = True"
| "properParts (Txt t # ps) = (quietText t (renderTemplate ps) \<and> properParts ps)"
| "properParts (Placeholder i # ps) = (i \<noteq> [] \<and> CHR 0x22 \<notin> set i \<and> properParts ps)"

text \<open>
  What a placeholder stands for in the result: nothing without item data or without the
  object of variables, nothing for a variable that is no field variable, else the value
  of its field. \<open>reachesFieldCheck\<close> says that the callback comes to line 440 for some
  placeholder of the template.
\<close>

definition fieldsList :: "fields_ref \<Rightarrow> collection_field list" where
  "fieldsList fieldsForCollection = (case fieldsForCollection of Fields fs \<Rightarrow> fs | NotAnArray \<Rightarrow> [])"

definition placeholderValue ::
  "(string \<Rightarrow> string) \<Rightarrow> collection_field list \<Rightarrow> (string \<times> string) list option
     \<Rightarrow> inline_content \<Rightarrow> string \<Rightarrow> string" where
  "placeholderValue protoText fs collectionItemData inlineContent variableId =
     (case (collectionItemData, ic_variables inlineContent) of
        (Some item, Some variables) \<Rightarrow>
          (case fieldOfVariable variables variableId of
             None \<Rightarrow> []
           | Some fieldId \<Rightarrow> fieldValue protoText fs item fieldId)
      | _ \<Rightarrow> [])"

fun placeholderIds :: "template_part list \<Rightarrow> string list" where
  "placeholderIds [] = []"
| "placeholderIds (Txt t # ps) = placeholderIds ps"
| "placeholderIds (Placeholder i # ps) = i # placeholderIds ps"

definition reachesFieldCheck ::
  "(string \<times> string) list option \<Rightarrow> inline_content \<Rightarrow> template_part list \<Rightarrow> bool" where
  "reachesFieldCheck collectionItemData inlineContent parts =
     (case (collectionItemData, ic_variables inlineContent) of
        (Some item, Some variables) \<Rightarrow>
          list_ex (\<lambda>i. fieldOfVariable variables i \<noteq> None) (placeholderIds parts)
      | _ \<Rightarrow> False)"

section \<open>Lemmas on strings and patterns\<close>

lemma startsWith_decomp: "startsWith s p \<Longrightarrow> p @ slice (length p) s = s"
  by (induction s p rule: startsWith.induct) (auto simp: slice_def)

lemma rx_lit_prefix: "rx_rest (Cat (Lit p) r) s \<noteq> [] \<Longrightarrow> startsWith s p"
proof (induction p arbitrary: s)
  case Nil
  then show ?case by simp
next
  case (Cons c p)
  then show ?case
    by (cases s) (auto simp: Ch_def split: if_splits)
qed

lemma anch_prefix: "rx_test (anch p body) s \<Longrightarrow> startsWith s p"
  using rx_lit_prefix[of p "Cat body (Cat Eol Eps)" s] by (simp add: rx_test_def anch_def)

lemma pattern_width: "getConflictingClassPattern ''width'' = Some (anch ''w-'' rx_size)"
  by (simp add: getConflictingClassPattern_def CLASS_PROPERTY_MAP_def)

lemma pattern_backgroundColor:
  "getConflictingClassPattern ''backgroundColor'' = Some rx_backgroundColor"
  by (simp add: getConflictingClassPattern_def CLASS_PROPERTY_MAP_def)

section \<open>The prefix table\<close>

text \<open>
  C2. The claim: the desktop breakpoint has the empty prefix, so that
  \<open>getBreakpointPrefix('desktop')\<close> is the empty string and \<open>addBreakpointPrefix('desktop', c)\<close>
  is \<open>c\<close>, and tablet and mobile map to \<open>max-lg:\<close> and \<open>max-md:\<close>. The table of the source
  is the other way round: the empty prefix belongs to mobile, tablet has \<open>md:\<close> and desktop
  has \<open>lg:\<close>, so the documented example \<open>addBreakpointPrefix('desktop', 'w-[100px]')\<close>
  yields \<open>lg:w-[100px]\<close>, and the tablet prefix is read back by \<open>parseBreakpointClass\<close>
  only through its legacy branch.
\<close>

theorem breakpoint_prefix_table:
  "getBreakpointPrefix Desktop = ''lg:''
   \<and> getBreakpointPrefix Tablet = ''md:''
   \<and> getBreakpointPrefix Mobile = []
   \<and> addBreakpointPrefix Desktop ''w-[100px]'' = ''lg:w-[100px]''
   \<and> addBreakpointPrefix Tablet ''w-[100px]'' = ''md:w-[100px]''
   \<and> addBreakpointPrefix Mobile ''w-[100px]'' = ''w-[100px]''
   \<and> parseBreakpointClass ''max-lg:w-[100px]'' = (Tablet, ''w-[100px]'')
   \<and> parseBreakpointClass ''max-md:w-[100px]'' = (Mobile, ''w-[100px]'')"
  by (simp add: getBreakpointPrefix_def addBreakpointPrefix_def parseBreakpointClass_def
      slice_def)

section \<open>The image heuristic against the colour heuristic\<close>

text \<open>
  C10. The claim: a value that \<open>isColorValue\<close> accepts is never an image for
  \<open>isImageValue\<close>. The colour check of \<open>isImageValue\<close> stands after the URL and gradient
  checks, which have returned \<open>true\<close> by then: a value that opens like an \<open>rgb(\<close> colour and
  holds a URL is accepted by both.
\<close>

theorem color_value_classified_as_image:
  "isColorValue ''rgb(0,0,0),url(https://a.b/c.png)''
   \<and> isImageValue ''rgb(0,0,0),url(https://a.b/c.png)''"
  by code_simp

section \<open>Conflict removal\<close>

lemma removeConflictingClasses_filter:
  "removeConflictingClasses classes property =
     filter (\<lambda>cls. case getConflictingClassPattern property of
                      None \<Rightarrow> True
                    | Some pattern \<Rightarrow> rcc_keep property pattern cls) classes"
  by (simp add: removeConflictingClasses_def split: option.splits)

lemma foldl_removeConflictingClasses:
  "foldl removeConflictingClasses classes properties =
     filter (\<lambda>cls. \<forall>property \<in> set properties.
                      case getConflictingClassPattern property of
                        None \<Rightarrow> True
                      | Some pattern \<Rightarrow> rcc_keep property pattern cls) classes"
proof (induction properties arbitrary: classes)
  case Nil
  then show ?case by simp
next
  case (Cons p ps)
  show ?case
    unfolding foldl_Cons Cons.IH
    by (subst removeConflictingClasses_filter) (auto intro: filter_cong)
qed

lemma kept_overloaded:
  assumes "cls \<in> set classes"
    and "\<And>pattern. getConflictingClassPattern property = Some pattern
           \<Longrightarrow> rcc_keep property pattern cls"
  shows "cls \<in> set (removeConflictingClasses classes property)"
  using assms by (auto simp: removeConflictingClasses_def split: option.splits)

text \<open>
  C3. For the token list \<open>['text-[1.5rem]', 'text-[#ff0000]']\<close>, removing the conflicts of
  \<open>fontSize\<close> leaves exactly \<open>['text-[#ff0000]']\<close> and removing those of \<open>color\<close> leaves
  exactly \<open>['text-[1.5rem]']\<close>. In every token list, a \<open>text-[...]\<close> token whose bracketed
  value the heuristic takes for a colour survives the removal of \<open>fontSize\<close>, one whose
  value it does not take for a colour survives the removal of \<open>color\<close>, and the same holds
  of \<open>bg-[...]\<close> tokens with the image heuristic, \<open>backgroundColor\<close> and \<open>backgroundImage\<close>.
\<close>

theorem overload_safety:
  "removeConflictingClasses [''text-[1.5rem]'', ''text-[#ff0000]''] ''fontSize''
     = [''text-[#ff0000]'']
   \<and> removeConflictingClasses [''text-[1.5rem]'', ''text-[#ff0000]''] ''color''
     = [''text-[1.5rem]'']
   \<and> (\<forall>classes cls v.
         cls \<in> set classes \<and> startsWith cls ''text-['' \<and> extractArbitraryValue cls = Some v
         \<longrightarrow> (isColorValue v \<longrightarrow> cls \<in> set (removeConflictingClasses classes ''fontSize''))
           \<and> (\<not> isColorValue v \<longrightarrow> cls \<in> set (removeConflictingClasses classes ''color'')))
   \<and> (\<forall>classes cls v.
         cls \<in> set classes \<and> startsWith cls ''bg-['' \<and> extractArbitraryValue cls = Some v
         \<longrightarrow> (isImageValue v
               \<longrightarrow> cls \<in> set (removeConflictingClasses classes ''backgroundColor''))
           \<and> (\<not> isImageValue v
               \<longrightarrow> cls \<in> set (removeConflictingClasses classes ''backgroundImage'')))"
proof (intro conjI allI impI)
  show "removeConflictingClasses [''text-[1.5rem]'', ''text-[#ff0000]''] ''fontSize''
          = [''text-[#ff0000]'']"
    by code_simp
  show "removeConflictingClasses [''text-[1.5rem]'', ''text-[#ff0000]''] ''color''
          = [''text-[1.5rem]'']"
    by code_simp
next
  fix classes cls v
  assume h: "cls \<in> set classes \<and> startsWith cls ''text-['' \<and> extractArbitraryValue cls = Some v"
  { assume "isColorValue v"
    with h show "cls \<in> set (removeConflictingClasses classes ''fontSize'')"
      by (intro kept_overloaded) (simp_all add: rcc_keep_def) }
  { assume "\<not> isColorValue v"
    with h show "cls \<in> set (removeConflictingClasses classes ''color'')"
      by (intro kept_overloaded) (simp_all add: rcc_keep_def) }
next
  fix classes cls v
  assume h: "cls \<in> set classes \<and> startsWith cls ''bg-['' \<and> extractArbitraryValue cls = Some v"
  { assume "isImageValue v"
    with h show "cls \<in> set (removeConflictingClasses classes ''backgroundColor'')"
      by (intro kept_overloaded) (simp_all add: rcc_keep_def) }
  { assume "\<not> isImageValue v"
    with h show "cls \<in> set (removeConflictingClasses classes ''backgroundImage'')"
      by (intro kept_overloaded) (simp_all add: rcc_keep_def) }
qed

theorem overload_safety_witness:
  "''text-[#0000FF]'' \<in> set (removeConflictingClasses
       [''flex'', ''text-[#0000FF]'', ''text-[10rem]'', ''text-lg''] ''fontSize'')
   \<and> ''text-[10rem]'' \<in> set (removeConflictingClasses
       [''flex'', ''text-[#0000FF]'', ''text-[10rem]'', ''text-lg''] ''color'')
   \<and> ''bg-[url(a.png)]'' \<in> set (removeConflictingClasses
       [''bg-[url(a.png)]'', ''bg-[#0000FF]'', ''bg-red-500''] ''backgroundColor'')
   \<and> ''bg-[#0000FF]'' \<in> set (removeConflictingClasses
       [''bg-[url(a.png)]'', ''bg-[#0000FF]'', ''bg-red-500''] ''backgroundImage'')"
proof -
  have t1: "startsWith ''text-[#0000FF]'' ''text-[''
            \<and> extractArbitraryValue ''text-[#0000FF]'' = Some ''#0000FF''
            \<and> isColorValue ''#0000FF''"
    by code_simp
  have t2: "startsWith ''text-[10rem]'' ''text-[''
            \<and> extractArbitraryValue ''text-[10rem]'' = Some ''10rem''
            \<and> \<not> isColorValue ''10rem''"
    by code_simp
  have b1: "startsWith ''bg-[url(a.png)]'' ''bg-[''
            \<and> extractArbitraryValue ''bg-[url(a.png)]'' = Some ''url(a.png)''
            \<and> isImageValue ''url(a.png)''"
    by code_simp
  have b2: "startsWith ''bg-[#0000FF]'' ''bg-[''
            \<and> extractArbitraryValue ''bg-[#0000FF]'' = Some ''#0000FF''
            \<and> \<not> isImageValue ''#0000FF''"
    by code_simp
  from overload_safety have
    tx: "\<forall>classes cls v.
         cls \<in> set classes \<and> startsWith cls ''text-['' \<and> extractArbitraryValue cls = Some v
         \<longrightarrow> (isColorValue v \<longrightarrow> cls \<in> set (removeConflictingClasses classes ''fontSize''))
           \<and> (\<not> isColorValue v \<longrightarrow> cls \<in> set (removeConflictingClasses classes ''color''))"
    and bg: "\<forall>classes cls v.
         cls \<in> set classes \<and> startsWith cls ''bg-['' \<and> extractArbitraryValue cls = Some v
         \<longrightarrow> (isImageValue v
               \<longrightarrow> cls \<in> set (removeConflictingClasses classes ''backgroundColor''))
           \<and> (\<not> isImageValue v
               \<longrightarrow> cls \<in> set (removeConflictingClasses classes ''backgroundImage''))"
    by blast+
  from tx t1 have
    "''text-[#0000FF]'' \<in> set (removeConflictingClasses
       [''flex'', ''text-[#0000FF]'', ''text-[10rem]'', ''text-lg''] ''fontSize'')"
    by simp
  moreover from tx t2 have
    "''text-[10rem]'' \<in> set (removeConflictingClasses
       [''flex'', ''text-[#0000FF]'', ''text-[10rem]'', ''text-lg''] ''color'')"
    by simp
  moreover from bg b1 have
    "''bg-[url(a.png)]'' \<in> set (removeConflictingClasses
       [''bg-[url(a.png)]'', ''bg-[#0000FF]'', ''bg-red-500''] ''backgroundColor'')"
    by simp
  moreover from bg b2 have
    "''bg-[#0000FF]'' \<in> set (removeConflictingClasses
       [''bg-[url(a.png)]'', ''bg-[#0000FF]'', ''bg-red-500''] ''backgroundImage'')"
    by simp
  ultimately show ?thesis by blast
qed

text \<open>
  C5. \<open>removeConflictsForClass\<close> is idempotent: for every token list and every new token,
  removing the conflicts of the token a second time changes nothing.
\<close>

theorem removeConflictsForClass_idempotent:
  "removeConflictsForClass (removeConflictsForClass tokens t) t
     = removeConflictsForClass tokens t"
  by (simp add: removeConflictsForClass_def foldl_removeConflictingClasses)

theorem removeConflictsForClass_idempotent_witness:
  "removeConflictsForClass
     (removeConflictsForClass [''text-[1.5rem]'', ''text-[#ff0000]'', ''flex'', ''text-lg'']
        ''text-[2rem]'') ''text-[2rem]''
     = [''text-[#ff0000]'', ''flex'']"
proof -
  have "removeConflictsForClass [''text-[1.5rem]'', ''text-[#ff0000]'', ''flex'', ''text-lg'']
          ''text-[2rem]'' = [''text-[#ff0000]'', ''flex'']"
    by code_simp
  with removeConflictsForClass_idempotent
         [of "[''text-[1.5rem]'', ''text-[#ff0000]'', ''flex'', ''text-lg'']" "''text-[2rem]''"]
  show ?thesis by simp
qed

section \<open>Inheritance in the neutral state\<close>

lemma should_width_prefix:
  "shouldIncludeClassForProperty v ''width'' (anch ''w-'' rx_size) \<Longrightarrow> startsWith v ''w-''"
  by (auto simp: shouldIncludeClassForProperty_def dest: anch_prefix split: if_splits)

lemma neutral_width:
  assumes "isNeutralClass ''width'' (anch ''w-'' rx_size) pfx c"
  shows "startsWith (slice (length pfx) c) ''w-'' \<and> pfx @ slice (length pfx) c = c \<and> c \<noteq> []"
proof (cases "pfx = []")
  case True
  with assms have "startsWith c ''w-''"
    by (auto simp: isNeutralClass_def dest: should_width_prefix split: if_splits)
  with True show ?thesis by (auto simp: slice_def)
next
  case False
  with assms have a: "startsWith c pfx" and b: "startsWith (slice (length pfx) c) ''w-''"
    by (auto simp: isNeutralClass_def dest: should_width_prefix split: if_splits)
  from a have "pfx @ slice (length pfx) c = c" by (rule startsWith_decomp)
  with False b show ?thesis by auto
qed

lemma neutralAt_width:
  assumes "neutralAt classes ''width'' (anch ''w-'' rx_size) b = Some c"
  shows "c \<in> set classes \<and> c \<noteq> []
         \<and> startsWith (slice (length (getBreakpointPrefix b)) c) ''w-''
         \<and> getBreakpointPrefix b @ slice (length (getBreakpointPrefix b)) c = c"
  using assms neutral_width[of "getBreakpointPrefix b" c]
  by (auto simp: neutralAt_def find_Some_iff)

lemma step_neutral_width:
  "inheritStep classes ''width'' (anch ''w-'' rx_size) Neutral r b =
     (case neutralAt classes ''width'' (anch ''w-'' rx_size) b of
        None \<Rightarrow> r
      | Some c \<Rightarrow> \<lparr>inh_value = Some (slice (length (getBreakpointPrefix b)) c),
                    inh_source = Some b\<rparr>)"
proof (cases "neutralAt classes ''width'' (anch ''w-'' rx_size) b")
  case None
  then show ?thesis by (simp add: inheritStep_def neutralAt_def truthy_def Let_def)
next
  case (Some c)
  from neutralAt_width[OF Some] have "c \<noteq> []" by simp
  with Some show ?thesis
    by (auto simp: inheritStep_def neutralAt_def truthy_def Let_def slice_def)
qed

lemma giv_width_neutral:
  "getInheritedValue classes ''width'' bp Neutral =
     (case rev (filter (\<lambda>b. neutralAt classes ''width'' (anch ''w-'' rx_size) b \<noteq> None)
                       (inheritanceChain bp)) of
        [] \<Rightarrow> \<lparr>inh_value = None, inh_source = None\<rparr>
      | s # _ \<Rightarrow>
          \<lparr>inh_value = map_option (slice (length (getBreakpointPrefix s)))
                                   (neutralAt classes ''width'' (anch ''w-'' rx_size) s),
           inh_source = Some s\<rparr>)"
  by (cases bp)
     (auto simp: getInheritedValue_def pattern_width step_neutral_width split: option.splits)

text \<open>
  C1 as stated fails. For \<open>['w-[100px]', 'max-lg:w-[50px]']\<close> at mobile the lookup walks
  the prefixes \<open>lg:\<close>, \<open>md:\<close> and the empty prefix of the table; only the unprefixed token
  is found, at the last step, and the value is the whole token.
\<close>

theorem inherited_width_counterexample:
  "getInheritedValue [''w-[100px]'', ''max-lg:w-[50px]''] ''width'' Mobile Neutral
     = \<lparr>inh_value = Some ''w-[100px]'', inh_source = Some Mobile\<rparr>
   \<and> getInheritedValue [''w-[100px]'', ''max-lg:w-[50px]''] ''width'' Mobile Neutral
     \<noteq> \<lparr>inh_value = Some ''50px'', inh_source = Some Tablet\<rparr>"
  by code_simp

lemma giv_width_neutral_token:
  assumes r: "getInheritedValue classes ''width'' bp Neutral
               = \<lparr>inh_value = Some v, inh_source = Some s\<rparr>"
  shows "startsWith v ''w-'' \<and> getBreakpointPrefix s @ v \<in> set classes
          \<and> s \<in> set (inheritanceChain bp)"
proof -
  let ?hits = "rev (filter (\<lambda>b. neutralAt classes ''width'' (anch ''w-'' rx_size) b \<noteq> None)
                           (inheritanceChain bp))"
  from r obtain rest where hits: "?hits = s # rest"
    unfolding giv_width_neutral by (auto split: list.splits)
  from hits have "s \<in> set ?hits" by simp
  then have mem: "s \<in> set (inheritanceChain bp)"
    and "neutralAt classes ''width'' (anch ''w-'' rx_size) s \<noteq> None" by auto
  then obtain c where c: "neutralAt classes ''width'' (anch ''w-'' rx_size) s = Some c" by blast
  from r hits c have vc: "v = slice (length (getBreakpointPrefix s)) c"
    unfolding giv_width_neutral by simp
  from neutralAt_width[OF c] vc mem show ?thesis by simp
qed

text \<open>
  C1, amended. The value \<open>getInheritedValue\<close> returns is the whole base token, not the
  content of its brackets. For the two tokens of the claim carrying the prefixes the
  table gives desktop and tablet, the lookup at mobile in the neutral state returns the
  token \<open>w-[50px]\<close> from tablet. For every token list and breakpoint, the neutral lookup
  of \<open>width\<close> returns the neutral token of the last breakpoint of the chain (desktop down
  to the current one) that has one, with that breakpoint as source, and nothing when no
  breakpoint of the chain has one; a value it returns starts with \<open>w-\<close>, and the
  source's prefix followed by the value is one of the tokens.
\<close>

theorem inherited_width_neutral:
  "getInheritedValue
      [addBreakpointPrefix Desktop ''w-[100px]'', addBreakpointPrefix Tablet ''w-[50px]'']
      ''width'' Mobile Neutral
     = \<lparr>inh_value = Some ''w-[50px]'', inh_source = Some Tablet\<rparr>
   \<and> getInheritedValue classes ''width'' bp Neutral =
       (case rev (filter (\<lambda>b. neutralAt classes ''width'' (anch ''w-'' rx_size) b \<noteq> None)
                         (inheritanceChain bp)) of
          [] \<Rightarrow> \<lparr>inh_value = None, inh_source = None\<rparr>
        | s # _ \<Rightarrow>
            \<lparr>inh_value = map_option (slice (length (getBreakpointPrefix s)))
                                     (neutralAt classes ''width'' (anch ''w-'' rx_size) s),
             inh_source = Some s\<rparr>)
   \<and> (\<forall>v s. getInheritedValue classes ''width'' bp Neutral
                = \<lparr>inh_value = Some v, inh_source = Some s\<rparr>
              \<longrightarrow> startsWith v ''w-'' \<and> getBreakpointPrefix s @ v \<in> set classes
                  \<and> s \<in> set (inheritanceChain bp))"
proof (intro conjI)
  show "getInheritedValue
      [addBreakpointPrefix Desktop ''w-[100px]'', addBreakpointPrefix Tablet ''w-[50px]'']
      ''width'' Mobile Neutral
     = \<lparr>inh_value = Some ''w-[50px]'', inh_source = Some Tablet\<rparr>"
    by code_simp
  show "getInheritedValue classes ''width'' bp Neutral =
       (case rev (filter (\<lambda>b. neutralAt classes ''width'' (anch ''w-'' rx_size) b \<noteq> None)
                         (inheritanceChain bp)) of
          [] \<Rightarrow> \<lparr>inh_value = None, inh_source = None\<rparr>
        | s # _ \<Rightarrow>
            \<lparr>inh_value = map_option (slice (length (getBreakpointPrefix s)))
                                     (neutralAt classes ''width'' (anch ''w-'' rx_size) s),
             inh_source = Some s\<rparr>)"
    by (rule giv_width_neutral)
  show "\<forall>v s. getInheritedValue classes ''width'' bp Neutral
                = \<lparr>inh_value = Some v, inh_source = Some s\<rparr>
              \<longrightarrow> startsWith v ''w-'' \<and> getBreakpointPrefix s @ v \<in> set classes
                  \<and> s \<in> set (inheritanceChain bp)"
    using giv_width_neutral_token by blast
qed

theorem inherited_width_neutral_witness:
  "getInheritedValue [''md:w-[50px]'', ''flex'', ''lg:w-[100px]'', ''w-full''] ''width'' Tablet Neutral
     = \<lparr>inh_value = Some ''w-[50px]'', inh_source = Some Tablet\<rparr>
   \<and> startsWith ''w-[50px]'' ''w-''
   \<and> getBreakpointPrefix Tablet @ ''w-[50px]''
        \<in> set [''md:w-[50px]'', ''flex'', ''lg:w-[100px]'', ''w-full'']
   \<and> Tablet \<in> set (inheritanceChain Tablet)"
proof -
  have e: "getInheritedValue [''md:w-[50px]'', ''flex'', ''lg:w-[100px]'', ''w-full''] ''width''
             Tablet Neutral
           = \<lparr>inh_value = Some ''w-[50px]'', inh_source = Some Tablet\<rparr>"
    by code_simp
  from inherited_width_neutral
         [of "[''md:w-[50px]'', ''flex'', ''lg:w-[100px]'', ''w-full'']" Tablet]
  have "\<forall>v s. getInheritedValue [''md:w-[50px]'', ''flex'', ''lg:w-[100px]'', ''w-full'']
                  ''width'' Tablet Neutral
                = \<lparr>inh_value = Some v, inh_source = Some s\<rparr>
              \<longrightarrow> startsWith v ''w-''
                  \<and> getBreakpointPrefix s @ v
                      \<in> set [''md:w-[50px]'', ''flex'', ''lg:w-[100px]'', ''w-full'']
                  \<and> s \<in> set (inheritanceChain Tablet)"
    by blast
  with e show ?thesis by blast
qed

section \<open>Inheritance under an interaction state\<close>

lemma should_bg_prefix:
  "shouldIncludeClassForProperty v ''backgroundColor'' rx_backgroundColor \<Longrightarrow> startsWith v ''bg-''"
proof -
  assume "shouldIncludeClassForProperty v ''backgroundColor'' rx_backgroundColor"
  then have t: "rx_test rx_backgroundColor v"
    by (auto simp: shouldIncludeClassForProperty_def split: if_splits)
  obtain r where "rx_backgroundColor = Cat (Lit ''bg-'') r"
    by (simp add: rx_backgroundColor_def)
  with t show ?thesis using rx_lit_prefix[of "''bg-''" r v] by (simp add: rx_test_def)
qed

lemma stateAt_bg:
  assumes "stateAt classes ''backgroundColor'' rx_backgroundColor b st = Some c"
    and "st \<noteq> Neutral"
  shows "c \<in> set classes \<and> c \<noteq> []
         \<and> startsWith (slice (length (getBreakpointPrefix b @ getUIStatePrefix st)) c) ''bg-''
         \<and> (getBreakpointPrefix b @ getUIStatePrefix st)
             @ slice (length (getBreakpointPrefix b @ getUIStatePrefix st)) c = c"
proof -
  let ?bp = "getBreakpointPrefix b" and ?sp = "getUIStatePrefix st"
  from assms(2) have sp: "?sp \<noteq> []" by (cases st) (simp_all add: getUIStatePrefix_def)
  from assms(1) have mem: "c \<in> set classes"
    and isc: "isStateClass ''backgroundColor'' rx_backgroundColor ?bp ?sp c"
    by (auto simp: stateAt_def find_Some_iff)
  from isc have sw: "startsWith c (?bp @ ?sp)"
    by (cases "?bp = []") (auto simp: isStateClass_def Let_def split: if_splits)
  from isc have "shouldIncludeClassForProperty (slice (length (?bp @ ?sp)) c)
                  ''backgroundColor'' rx_backgroundColor"
    by (auto simp: isStateClass_def Let_def split: if_splits)
  then have b: "startsWith (slice (length (?bp @ ?sp)) c) ''bg-''" by (rule should_bg_prefix)
  from sw have d: "(?bp @ ?sp) @ slice (length (?bp @ ?sp)) c = c" by (rule startsWith_decomp)
  with sp have "c \<noteq> []" by auto
  with mem b d show ?thesis by simp
qed

lemma neutralAt_bg:
  assumes "neutralAt classes ''backgroundColor'' rx_backgroundColor b = Some c"
  shows "c \<in> set classes \<and> c \<noteq> []
         \<and> startsWith (slice (length (getBreakpointPrefix b)) c) ''bg-''
         \<and> getBreakpointPrefix b @ slice (length (getBreakpointPrefix b)) c = c"
proof -
  let ?bp = "getBreakpointPrefix b"
  from assms have mem: "c \<in> set classes"
    and isc: "isNeutralClass ''backgroundColor'' rx_backgroundColor ?bp c"
    by (auto simp: neutralAt_def find_Some_iff)
  show ?thesis
  proof (cases "?bp = []")
    case True
    with isc have "startsWith c ''bg-''"
      by (auto simp: isNeutralClass_def dest: should_bg_prefix split: if_splits)
    with True mem show ?thesis by (auto simp: slice_def)
  next
    case False
    with isc have a: "startsWith c ?bp" and b: "startsWith (slice (length ?bp) c) ''bg-''"
      by (auto simp: isNeutralClass_def dest: should_bg_prefix split: if_splits)
    from a have "?bp @ slice (length ?bp) c = c" by (rule startsWith_decomp)
    with False b mem show ?thesis by auto
  qed
qed

lemma step_neutral_bg:
  "inheritStep classes ''backgroundColor'' rx_backgroundColor Neutral r b =
     (case neutralAt classes ''backgroundColor'' rx_backgroundColor b of
        None \<Rightarrow> r
      | Some c \<Rightarrow> \<lparr>inh_value = Some (slice (length (getBreakpointPrefix b)) c),
                    inh_source = Some b\<rparr>)"
proof (cases "neutralAt classes ''backgroundColor'' rx_backgroundColor b")
  case None
  then show ?thesis by (simp add: inheritStep_def neutralAt_def truthy_def Let_def)
next
  case (Some c)
  from neutralAt_bg[OF Some] have "c \<noteq> []" by simp
  with Some show ?thesis
    by (auto simp: inheritStep_def neutralAt_def truthy_def Let_def slice_def)
qed

lemma step_state_bg:
  assumes "st \<noteq> Neutral"
  shows "inheritStep classes ''backgroundColor'' rx_backgroundColor st
           \<lparr>inh_value = None, inh_source = None\<rparr> b =
     (case stateAt classes ''backgroundColor'' rx_backgroundColor b st of
        Some c \<Rightarrow> \<lparr>inh_value = Some (slice (length (getBreakpointPrefix b @ getUIStatePrefix st)) c),
                    inh_source = Some b\<rparr>
      | None \<Rightarrow>
         (case neutralAt classes ''backgroundColor'' rx_backgroundColor b of
            None \<Rightarrow> \<lparr>inh_value = None, inh_source = None\<rparr>
          | Some c \<Rightarrow> \<lparr>inh_value = Some (slice (length (getBreakpointPrefix b)) c),
                        inh_source = Some b\<rparr>))"
proof (cases "stateAt classes ''backgroundColor'' rx_backgroundColor b st")
  case None
  show ?thesis
  proof (cases "neutralAt classes ''backgroundColor'' rx_backgroundColor b")
    case n: None
    with None assms show ?thesis
      by (simp add: inheritStep_def neutralAt_def stateAt_def truthy_def Let_def)
  next
    case (Some c)
    from neutralAt_bg[OF Some] have "c \<noteq> []" by simp
    with Some None assms show ?thesis
      by (auto simp: inheritStep_def neutralAt_def stateAt_def truthy_def Let_def slice_def)
  qed
next
  case (Some c)
  from stateAt_bg[OF Some assms] have ne: "c \<noteq> []"
    and b: "startsWith (slice (length (getBreakpointPrefix b @ getUIStatePrefix st)) c) ''bg-''"
    by simp_all
  from b have "slice (length (getBreakpointPrefix b @ getUIStatePrefix st)) c \<noteq> []" by auto
  with Some ne assms show ?thesis
    by (auto simp: inheritStep_def stateAt_def truthy_def Let_def)
qed


lemma giv_bg_neutral:
  "getInheritedValue classes ''backgroundColor'' Desktop Neutral =
     (case neutralAt classes ''backgroundColor'' rx_backgroundColor Desktop of
        None \<Rightarrow> \<lparr>inh_value = None, inh_source = None\<rparr>
      | Some c \<Rightarrow> \<lparr>inh_value = Some (slice (length (getBreakpointPrefix Desktop)) c),
                    inh_source = Some Desktop\<rparr>)"
  by (simp add: getInheritedValue_def pattern_backgroundColor step_neutral_bg)

lemma giv_bg_state:
  assumes "st \<noteq> Neutral"
  shows "getInheritedValue classes ''backgroundColor'' Desktop st =
     (case stateAt classes ''backgroundColor'' rx_backgroundColor Desktop st of
        Some c \<Rightarrow>
          \<lparr>inh_value = Some (slice (length (getBreakpointPrefix Desktop @ getUIStatePrefix st)) c),
           inh_source = Some Desktop\<rparr>
      | None \<Rightarrow> getInheritedValue classes ''backgroundColor'' Desktop Neutral)"
  unfolding giv_bg_neutral
  by (simp add: getInheritedValue_def pattern_backgroundColor step_state_bg[OF assms])

lemma giv_bg_token:
  assumes r: "getInheritedValue classes ''backgroundColor'' Desktop st
                = \<lparr>inh_value = Some v, inh_source = Some s\<rparr>"
  shows "startsWith v ''bg-'' \<and> s = Desktop"
proof -
  have n: "startsWith v ''bg-'' \<and> s = Desktop"
    if "getInheritedValue classes ''backgroundColor'' Desktop Neutral
          = \<lparr>inh_value = Some v, inh_source = Some s\<rparr>"
    using that neutralAt_bg[of classes Desktop] unfolding giv_bg_neutral
    by (auto split: option.splits)
  show ?thesis
  proof (cases "st = Neutral")
    case True
    with r n show ?thesis by simp
  next
    case False
    show ?thesis
    proof (cases "stateAt classes ''backgroundColor'' rx_backgroundColor Desktop st")
      case None
      with r n False show ?thesis by (simp add: giv_bg_state)
    next
      case (Some c)
      with r False stateAt_bg[OF Some False] show ?thesis by (auto simp: giv_bg_state)
    qed
  qed
qed

text \<open>
  C4 as stated fails. For \<open>['bg-red-500', 'hover:bg-blue-500']\<close> at desktop the lookup
  searches under the prefix \<open>lg:\<close> of the table and finds nothing, in the hover state and
  in the neutral state.
\<close>

theorem state_overlay_counterexample:
  "getInheritedValue [''bg-red-500'', ''hover:bg-blue-500''] ''backgroundColor'' Desktop Hover
     = \<lparr>inh_value = None, inh_source = None\<rparr>
   \<and> getInheritedValue [''bg-red-500'', ''hover:bg-blue-500''] ''backgroundColor'' Desktop Hover
     \<noteq> \<lparr>inh_value = Some ''blue-500'', inh_source = Some Desktop\<rparr>
   \<and> getInheritedValue [''bg-red-500'', ''hover:bg-blue-500''] ''backgroundColor'' Desktop Neutral
     = \<lparr>inh_value = None, inh_source = None\<rparr>
   \<and> getInheritedValue [''bg-red-500'', ''hover:bg-blue-500''] ''backgroundColor'' Desktop Neutral
     \<noteq> \<lparr>inh_value = Some ''red-500'', inh_source = Some Desktop\<rparr>"
  by code_simp

text \<open>
  C4, amended. The value is the whole base token. For the two tokens of the claim
  carrying the prefix the table gives desktop, the lookup at desktop returns \<open>bg-blue-500\<close>
  in the hover state and \<open>bg-red-500\<close> in the neutral state, both from desktop. For every
  token list, the lookup of \<open>backgroundColor\<close> at desktop in a state other than neutral
  returns the first token of that state when there is one and the result of the neutral
  lookup otherwise; the neutral lookup returns the first neutral token; a value returned
  starts with \<open>bg-\<close> and its source is desktop.
\<close>

theorem state_overlay_desktop:
  "getInheritedValue
      [addBreakpointPrefix Desktop ''bg-red-500'', addBreakpointPrefix Desktop ''hover:bg-blue-500'']
      ''backgroundColor'' Desktop Hover
     = \<lparr>inh_value = Some ''bg-blue-500'', inh_source = Some Desktop\<rparr>
   \<and> getInheritedValue
      [addBreakpointPrefix Desktop ''bg-red-500'', addBreakpointPrefix Desktop ''hover:bg-blue-500'']
      ''backgroundColor'' Desktop Neutral
     = \<lparr>inh_value = Some ''bg-red-500'', inh_source = Some Desktop\<rparr>
   \<and> (st \<noteq> Neutral \<longrightarrow>
        getInheritedValue classes ''backgroundColor'' Desktop st =
          (case stateAt classes ''backgroundColor'' rx_backgroundColor Desktop st of
             Some c \<Rightarrow>
               \<lparr>inh_value =
                   Some (slice (length (getBreakpointPrefix Desktop @ getUIStatePrefix st)) c),
                inh_source = Some Desktop\<rparr>
           | None \<Rightarrow> getInheritedValue classes ''backgroundColor'' Desktop Neutral))
   \<and> getInheritedValue classes ''backgroundColor'' Desktop Neutral =
       (case neutralAt classes ''backgroundColor'' rx_backgroundColor Desktop of
          None \<Rightarrow> \<lparr>inh_value = None, inh_source = None\<rparr>
        | Some c \<Rightarrow> \<lparr>inh_value = Some (slice (length (getBreakpointPrefix Desktop)) c),
                      inh_source = Some Desktop\<rparr>)
   \<and> (\<forall>v s. getInheritedValue classes ''backgroundColor'' Desktop st
                = \<lparr>inh_value = Some v, inh_source = Some s\<rparr>
              \<longrightarrow> startsWith v ''bg-'' \<and> s = Desktop)"
proof (intro conjI)
  show "getInheritedValue
      [addBreakpointPrefix Desktop ''bg-red-500'', addBreakpointPrefix Desktop ''hover:bg-blue-500'']
      ''backgroundColor'' Desktop Hover
     = \<lparr>inh_value = Some ''bg-blue-500'', inh_source = Some Desktop\<rparr>"
    by code_simp
  show "getInheritedValue
      [addBreakpointPrefix Desktop ''bg-red-500'', addBreakpointPrefix Desktop ''hover:bg-blue-500'']
      ''backgroundColor'' Desktop Neutral
     = \<lparr>inh_value = Some ''bg-red-500'', inh_source = Some Desktop\<rparr>"
    by code_simp
  show "st \<noteq> Neutral \<longrightarrow>
        getInheritedValue classes ''backgroundColor'' Desktop st =
          (case stateAt classes ''backgroundColor'' rx_backgroundColor Desktop st of
             Some c \<Rightarrow>
               \<lparr>inh_value =
                   Some (slice (length (getBreakpointPrefix Desktop @ getUIStatePrefix st)) c),
                inh_source = Some Desktop\<rparr>
           | None \<Rightarrow> getInheritedValue classes ''backgroundColor'' Desktop Neutral)"
    using giv_bg_state by blast
  show "getInheritedValue classes ''backgroundColor'' Desktop Neutral =
       (case neutralAt classes ''backgroundColor'' rx_backgroundColor Desktop of
          None \<Rightarrow> \<lparr>inh_value = None, inh_source = None\<rparr>
        | Some c \<Rightarrow> \<lparr>inh_value = Some (slice (length (getBreakpointPrefix Desktop)) c),
                      inh_source = Some Desktop\<rparr>)"
    by (rule giv_bg_neutral)
  show "\<forall>v s. getInheritedValue classes ''backgroundColor'' Desktop st
                = \<lparr>inh_value = Some v, inh_source = Some s\<rparr>
              \<longrightarrow> startsWith v ''bg-'' \<and> s = Desktop"
    using giv_bg_token by blast
qed

theorem state_overlay_desktop_witness:
  "Focus \<noteq> Neutral
   \<and> stateAt [''lg:bg-red-500'', ''lg:hover:bg-blue-500'', ''lg:focus:bg-[#00ff00]'']
        ''backgroundColor'' rx_backgroundColor Desktop Focus = Some ''lg:focus:bg-[#00ff00]''
   \<and> getInheritedValue [''lg:bg-red-500'', ''lg:hover:bg-blue-500'', ''lg:focus:bg-[#00ff00]'']
        ''backgroundColor'' Desktop Focus
      = \<lparr>inh_value = Some ''bg-[#00ff00]'', inh_source = Some Desktop\<rparr>"
proof -
  have a: "Focus \<noteq> Neutral" by simp
  have b: "stateAt [''lg:bg-red-500'', ''lg:hover:bg-blue-500'', ''lg:focus:bg-[#00ff00]'']
        ''backgroundColor'' rx_backgroundColor Desktop Focus = Some ''lg:focus:bg-[#00ff00]''"
    by code_simp
  have c: "slice (length (getBreakpointPrefix Desktop @ getUIStatePrefix Focus))
             ''lg:focus:bg-[#00ff00]'' = ''bg-[#00ff00]''"
    by code_simp
  from state_overlay_desktop
         [of Focus "[''lg:bg-red-500'', ''lg:hover:bg-blue-500'', ''lg:focus:bg-[#00ff00]'']"]
  have "Focus \<noteq> Neutral \<longrightarrow>
        getInheritedValue [''lg:bg-red-500'', ''lg:hover:bg-blue-500'', ''lg:focus:bg-[#00ff00]'']
           ''backgroundColor'' Desktop Focus =
          (case stateAt [''lg:bg-red-500'', ''lg:hover:bg-blue-500'', ''lg:focus:bg-[#00ff00]'']
                  ''backgroundColor'' rx_backgroundColor Desktop Focus of
             Some c \<Rightarrow>
               \<lparr>inh_value =
                   Some (slice (length (getBreakpointPrefix Desktop @ getUIStatePrefix Focus)) c),
                inh_source = Some Desktop\<rparr>
           | None \<Rightarrow> getInheritedValue
                       [''lg:bg-red-500'', ''lg:hover:bg-blue-500'', ''lg:focus:bg-[#00ff00]'']
                       ''backgroundColor'' Desktop Neutral)"
    by blast
  with a b c show ?thesis by simp
qed


section \<open>Prefix patterns as prefixes\<close>

lemma startsWith_same: "startsWith (p @ s) p"
  by (induction p) auto

lemma startsWith_app:
  "startsWith s (p @ q) \<longleftrightarrow> startsWith s p \<and> startsWith (drop (length p) s) q"
  by (induction s p rule: startsWith.induct) auto

lemma rx_test_Ch: "rx_test (Cat (Ch c) r) s \<longleftrightarrow> startsWith s [c] \<and> rx_test r (drop 1 s)"
  by (cases s) (auto simp: rx_test_def Ch_def)

lemma rx_test_Ch_end: "rx_test (Ch c) s \<longleftrightarrow> startsWith s [c]"
  by (cases s) (auto simp: rx_test_def Ch_def)

lemma rx_test_Eps: "rx_test Eps s"
  by (simp add: rx_test_def)

lemma rx_test_Lit: "rx_test (Cat (Lit w) r) s \<longleftrightarrow> startsWith s w \<and> rx_test r (drop (length w) s)"
proof (induction w arbitrary: s)
  case Nil
  then show ?case by (simp add: rx_test_def)
next
  case (Cons c w)
  have "rx_test (Cat (Lit (c # w)) r) s \<longleftrightarrow> rx_test (Cat (Ch c) (Cat (Lit w) r)) s"
    by (simp add: rx_test_def)
  also have "\<dots> \<longleftrightarrow> startsWith s [c] \<and> rx_test (Cat (Lit w) r) (drop 1 s)"
    by (rule rx_test_Ch)
  also have "\<dots> \<longleftrightarrow> startsWith s (c # w) \<and> rx_test r (drop (length (c # w)) s)"
    using Cons.IH[of "drop 1 s"] by (cases s) auto
  finally show ?case .
qed

lemma rx_test_Alt: "rx_test (Cat (Alt a b) r) s \<longleftrightarrow> rx_test (Cat a r) s \<or> rx_test (Cat b r) s"
  by (auto simp: rx_test_def)

lemma rx_test_Words:
  "rx_test (Cat (Words ws) r) s \<longleftrightarrow> (\<exists>w \<in> set ws. startsWith s w \<and> rx_test r (drop (length w) s))"
proof (induction ws)
  case Nil
  then show ?case by (simp add: Words_def rx_test_def)
next
  case (Cons w ws)
  show ?case
  proof (cases ws)
    case Nil
    then show ?thesis using rx_test_Lit[of w r s] by (simp add: Words_def)
  next
    case (Cons v vs)
    then have "Words (w # ws) = Alt (Lit w) (Words ws)" by (simp add: Words_def)
    then show ?thesis using Cons.IH rx_test_Lit[of w r s] by (auto simp: rx_test_Alt)
  qed
qed

lemma rx_test_Words_sep:
  "rx_test (Cat (Words ws) (Cat (Ch c) r)) s \<longleftrightarrow>
     (\<exists>p \<in> set (map (\<lambda>w. w @ [c]) ws). startsWith s p \<and> rx_test r (drop (length p) s))"
  unfolding rx_test_Words rx_test_Ch
  by (auto simp: startsWith_app add.commute)

lemma rx_test_Words_sep_end:
  "rx_test (Cat (Words ws) (Ch c)) s \<longleftrightarrow> (\<exists>p \<in> set (map (\<lambda>w. w @ [c]) ws). startsWith s p)"
  unfolding rx_test_Words rx_test_Ch_end
  by (auto simp: startsWith_app)

lemma rx_test_two_prefixes:
  "rx_test (Cats [Words bws, Ch c, Words sws, Ch d]) s \<longleftrightarrow>
     (\<exists>bp \<in> set (map (\<lambda>w. w @ [c]) bws). \<exists>sp \<in> set (map (\<lambda>w. w @ [d]) sws).
        startsWith s (bp @ sp))"
proof -
  have "rx_test (Cats [Words bws, Ch c, Words sws, Ch d]) s \<longleftrightarrow>
          rx_test (Cat (Words bws) (Cat (Ch c) (Cat (Words sws) (Cat (Ch d) Eps)))) s"
    by simp
  also have "\<dots> \<longleftrightarrow>
     (\<exists>bp \<in> set (map (\<lambda>w. w @ [c]) bws). startsWith s bp
        \<and> (\<exists>sp \<in> set (map (\<lambda>w. w @ [d]) sws). startsWith (drop (length bp) s) sp))"
    unfolding rx_test_Words_sep by (simp add: rx_test_Eps)
  also have "\<dots> \<longleftrightarrow>
     (\<exists>bp \<in> set (map (\<lambda>w. w @ [c]) bws). \<exists>sp \<in> set (map (\<lambda>w. w @ [d]) sws).
        startsWith s (bp @ sp))"
    unfolding startsWith_app by blast
  finally show ?thesis .
qed

lemma state_prefix_iff:
  "rx_test rx_state_prefix s \<longleftrightarrow> (\<exists>sp \<in> set statePrefixes. startsWith s sp)"
  unfolding rx_state_prefix_def rx_test_Words_sep_end
  by (simp add: statePrefixes_def)

lemma bp_state_prefix_iff:
  "rx_test rx_bp_state_prefix s \<longleftrightarrow>
     (\<exists>bp \<in> set breakpointPrefixes. \<exists>sp \<in> set statePrefixes. startsWith s (bp @ sp))"
  unfolding rx_bp_state_prefix_def rx_test_two_prefixes
  by (simp add: statePrefixes_def breakpointPrefixes_def)

section \<open>What classesToDesign leaves out\<close>

lemma parseClass_state:
  assumes "sp \<in> set statePrefixes"
  shows "parseClass d (sp @ base) = d"
proof -
  have "startsWith (sp @ base) sp" by (rule startsWith_same)
  with assms have "rx_test rx_state_prefix (sp @ base)" unfolding state_prefix_iff by blast
  then show ?thesis by (simp add: parseClass_def)
qed

lemma parseClass_bp_state:
  assumes "bp \<in> set breakpointPrefixes" and "sp \<in> set statePrefixes"
  shows "parseClass d (bp @ sp @ base) = d"
proof -
  have "startsWith ((bp @ sp) @ base) (bp @ sp)" by (rule startsWith_same)
  with assms have "rx_test rx_bp_state_prefix (bp @ sp @ base)"
    unfolding bp_state_prefix_iff by auto
  then show ?thesis by (simp add: parseClass_def)
qed

lemma parseClass_bp_only:
  assumes bp: "bp \<in> set breakpointPrefixes"
    and base: "\<forall>q \<in> set breakpointPrefixes. \<not> startsWith base q"
  shows "parseClass d (bp @ base) = parseClass d base"
proof -
  have s1: "\<not> rx_test rx_state_prefix (bp @ base)"
    using bp unfolding state_prefix_iff
    by (auto simp: statePrefixes_def breakpointPrefixes_def)
  have s2: "rx_test rx_bp_state_prefix (bp @ base) \<longleftrightarrow> rx_test rx_state_prefix base"
    using bp unfolding state_prefix_iff bp_state_prefix_iff
    by (auto simp: statePrefixes_def breakpointPrefixes_def)
  have s3: "\<not> rx_test rx_bp_state_prefix base"
    using base unfolding bp_state_prefix_iff
    by (auto simp: startsWith_app)
  have s4: "stripBreakpoint (bp @ base) = base"
    using bp by (auto simp: stripBreakpoint_def breakpointPrefixes_def)
  have s5: "stripBreakpoint base = base"
    using base by (simp add: stripBreakpoint_def breakpointPrefixes_def)
  show ?thesis
    by (simp add: parseClass_def s1 s2 s3 s4 s5)
qed

lemma map_fst_map_entry: "map fst (AList.map_entry k f xs) = map fst xs"
  by (induction xs) auto

lemma keys_setProp: "map fst (setProp c p v d) = map fst d"
  by (simp add: setProp_def map_fst_map_entry)

lemma keys_litRule: "map fst (litRule n c p v cls d) = map fst d"
  by (simp add: litRule_def keys_setProp)

lemma keys_arbRule: "map fst (arbRule cond c p cls d) = map fst d"
  by (simp add: arbRule_def keys_setProp split: option.splits)

lemma keys_kwRule: "map fst (kwRule pfx allowed c p cls d) = map fst d"
  by (simp add: kwRule_def keys_setProp Let_def)

lemma keys_chainRule: "map fst (chainRule arms cls d) = map fst d"
  by (induction arms cls d rule: chainRule.induct) (auto simp: keys_setProp split: option.splits)

lemma keys_applyRules:
  assumes "\<forall>r \<in> set rules. \<forall>d. map fst (r cls d) = map fst d"
  shows "map fst (applyRules rules cls d) = map fst d"
  using assms unfolding applyRules_def
  by (induction rules arbitrary: d) auto

lemma keys_layoutRules: "map fst (applyRules layoutRules cls d) = map fst d"
  by (rule keys_applyRules)
     (simp add: layoutRules_def keys_litRule keys_arbRule keys_kwRule keys_chainRule
        del: chainRule.simps)

lemma keys_laterRules: "map fst (applyRules laterRules cls d) = map fst d"
  by (rule keys_applyRules)
     (simp add: laterRules_def keys_litRule keys_arbRule keys_kwRule keys_chainRule
        del: chainRule.simps)

lemma keys_parseClass: "map fst (parseClass d cls) = map fst d"
  by (simp add: parseClass_def parseBase_def Let_def keys_layoutRules keys_laterRules
      keys_setProp)

lemma keys_foldl_parseClass: "map fst (foldl parseClass d cs) = map fst d"
  by (induction cs arbitrary: d) (simp_all add: keys_parseClass)

lemma classesToDesign_skip:
  assumes "\<And>d. parseClass d c = d"
  shows "classesToDesign (xs @ c # ys) = classesToDesign (xs @ ys)"
  by (simp add: classesToDesign_def assms)

lemma classesToDesign_same:
  assumes "\<And>d. parseClass d c = parseClass d c'"
  shows "classesToDesign (xs @ c # ys) = classesToDesign (xs @ c' # ys)"
  by (simp add: classesToDesign_def assms)

text \<open>
  C6. \<open>classesToDesign\<close> leaves out every token that carries an interaction-state prefix
  (\<open>hover:\<close>, \<open>focus:\<close>, \<open>active:\<close>, \<open>disabled:\<close>, \<open>visited:\<close>), bare or after a breakpoint
  prefix (\<open>max-lg:\<close>, \<open>max-md:\<close>, \<open>lg:\<close>, \<open>md:\<close>): the result is that of the list without
  the token. A token with a breakpoint prefix only is parsed as its base token is (the
  base being a token without a breakpoint prefix of its own). The keys of the result are
  the eight categories, in the order of the source, for every class list.
\<close>

theorem classesToDesign_prefixes:
  "(\<forall>sp \<in> set statePrefixes.
      classesToDesign (xs @ (sp @ base) # ys) = classesToDesign (xs @ ys)
      \<and> (\<forall>bp \<in> set breakpointPrefixes.
           classesToDesign (xs @ (bp @ sp @ base) # ys) = classesToDesign (xs @ ys)))
   \<and> (\<forall>bp \<in> set breakpointPrefixes.
        (\<forall>q \<in> set breakpointPrefixes. \<not> startsWith base q)
        \<longrightarrow> classesToDesign (xs @ (bp @ base) # ys) = classesToDesign (xs @ base # ys))
   \<and> map fst (classesToDesign classes) = categoryKeys"
proof (intro conjI ballI impI)
  fix sp assume "sp \<in> set statePrefixes"
  then show "classesToDesign (xs @ (sp @ base) # ys) = classesToDesign (xs @ ys)"
    by (intro classesToDesign_skip parseClass_state)
next
  fix sp bp assume "sp \<in> set statePrefixes" "bp \<in> set breakpointPrefixes"
  then show "classesToDesign (xs @ (bp @ sp @ base) # ys) = classesToDesign (xs @ ys)"
    by (intro classesToDesign_skip parseClass_bp_state)
next
  fix bp assume "bp \<in> set breakpointPrefixes"
    and "\<forall>q \<in> set breakpointPrefixes. \<not> startsWith base q"
  then show "classesToDesign (xs @ (bp @ base) # ys) = classesToDesign (xs @ base # ys)"
    by (intro classesToDesign_same parseClass_bp_only)
next
  show "map fst (classesToDesign classes) = categoryKeys"
    by (simp add: classesToDesign_def keys_foldl_parseClass emptyDesign_def categoryKeys_def)
qed

theorem classesToDesign_prefixes_witness:
  "classesToDesign [''flex'', ''hover:w-[20px]'', ''max-md:focus:h-[3px]'', ''md:w-[10px]'']
     = classesToDesign [''flex'', ''w-[10px]'']
   \<and> classesToDesign [''flex'', ''w-[10px]'']
     = [(''layout'', [(''display'', ''flex'')]), (''typography'', []), (''spacing'', []),
        (''sizing'', [(''width'', ''10px'')]), (''borders'', []), (''backgrounds'', []),
        (''effects'', []), (''positioning'', [])]
   \<and> map fst (classesToDesign [''flex'', ''hover:w-[20px]'', ''max-md:focus:h-[3px]'',
                                 ''md:w-[10px]'']) = categoryKeys"
proof -
  have m1: "''hover:'' \<in> set statePrefixes" and m2: "''focus:'' \<in> set statePrefixes"
    and m3: "''max-md:'' \<in> set breakpointPrefixes" and m4: "''md:'' \<in> set breakpointPrefixes"
    and m5: "\<forall>q \<in> set breakpointPrefixes. \<not> startsWith ''w-[10px]'' q"
    by (simp_all add: statePrefixes_def breakpointPrefixes_def)
  from classesToDesign_prefixes
         [of "[''flex'']" "''w-[20px]''" "[''max-md:focus:h-[3px]'', ''md:w-[10px]'']"] m1
  have a: "classesToDesign [''flex'', ''hover:w-[20px]'', ''max-md:focus:h-[3px]'', ''md:w-[10px]'']
           = classesToDesign [''flex'', ''max-md:focus:h-[3px]'', ''md:w-[10px]'']"
    by force
  from classesToDesign_prefixes [of "[''flex'']" "''h-[3px]''" "[''md:w-[10px]'']"] m2 m3
  have b: "classesToDesign [''flex'', ''max-md:focus:h-[3px]'', ''md:w-[10px]'']
           = classesToDesign [''flex'', ''md:w-[10px]'']"
    by force
  from classesToDesign_prefixes [of "[''flex'']" "''w-[10px]''" "[]"] m4 m5
  have c: "classesToDesign [''flex'', ''md:w-[10px]''] = classesToDesign [''flex'', ''w-[10px]'']"
    by force
  have e: "classesToDesign [''flex'', ''w-[10px]'']
     = [(''layout'', [(''display'', ''flex'')]), (''typography'', []), (''spacing'', []),
        (''sizing'', [(''width'', ''10px'')]), (''borders'', []), (''backgrounds'', []),
        (''effects'', []), (''positioning'', [])]"
    by code_simp
  from classesToDesign_prefixes
  have k: "map fst (classesToDesign [''flex'', ''hover:w-[20px]'', ''max-md:focus:h-[3px]'',
                                     ''md:w-[10px]'']) = categoryKeys"
    by blast
  from a b c e k show ?thesis by simp
qed


section \<open>The renderer's breakpoint filter\<close>

lemma split_on_nonempty: "split_on sep s \<noteq> []"
  by (induction s) (auto split: list.splits)

lemma split_on_no_sep: "w \<in> set (split_on sep s) \<Longrightarrow> sep \<notin> set w"
proof (induction s arbitrary: w)
  case Nil
  then show ?case by simp
next
  case (Cons c s)
  show ?case
  proof (cases "c = sep")
    case True
    with Cons show ?thesis by auto
  next
    case False
    obtain v vs where sp: "split_on sep s = v # vs"
      using split_on_nonempty[of sep s] by (cases "split_on sep s") auto
    with False Cons.prems have "w = c # v \<or> w \<in> set vs" by simp
    with False sp Cons.IH show ?thesis by auto
  qed
qed

lemma startsWith_set: "startsWith s p \<Longrightarrow> set p \<subseteq> set s"
  by (induction s p rule: startsWith.induct) auto

lemma str_includes_set: "str_includes s p \<Longrightarrow> set p \<subseteq> set s"
proof (induction s)
  case Nil
  then show ?case by simp
next
  case (Cons a s)
  from Cons.prems have "startsWith (a # s) p \<or> str_includes s p" by simp
  then show ?case
  proof
    assume "startsWith (a # s) p"
    then show ?thesis by (rule startsWith_set)
  next
    assume "str_includes s p"
    with Cons.IH show ?thesis by auto
  qed
qed

lemma classTokens_plain: "c \<in> set (classTokens s) \<Longrightarrow> c \<noteq> [] \<and> CHR '' '' \<notin> set c"
  by (auto simp: classTokens_def dest: split_on_no_sep)

lemma kept_mobile:
  assumes "CHR '' '' \<notin> set c"
  shows "keptAtBreakpoint ''mobile'' c \<longleftrightarrow> \<not> startsWith c ''md:'' \<and> \<not> startsWith c ''lg:''"
proof -
  from assms have "\<not> str_includes c '' md:''" and "\<not> str_includes c '' lg:''"
    by (auto dest: str_includes_set)
  then show ?thesis by (simp add: keptAtBreakpoint_def)
qed

lemma split_on_plain: "sep \<notin> set x \<Longrightarrow> split_on sep x = [x]"
  by (induction x) auto

lemma split_on_append: "sep \<notin> set x \<Longrightarrow> split_on sep (x @ sep # r) = x # split_on sep r"
  by (induction x) auto

lemma classTokens_join:
  assumes "\<forall>x \<in> set xs. x \<noteq> [] \<and> CHR '' '' \<notin> set x"
  shows "classTokens (joinWith '' '' xs) = xs"
  using assms
proof (induction "'' ''" xs rule: joinWith.induct)
  case 1
  then show ?case by (simp add: classTokens_def)
next
  case (2 x)
  then show ?case by (simp add: classTokens_def split_on_plain)
next
  case (3 x y ys)
  then show ?case
    by (simp add: classTokens_def split_on_append)
qed

lemma filter_mobile_tokens:
  "classTokens (filterClassesByBreakpoint s ''mobile'') =
     filter (\<lambda>c. \<not> startsWith c ''md:'' \<and> \<not> startsWith c ''lg:'') (classTokens s)"
proof (cases "s = []")
  case True
  then show ?thesis by (simp add: filterClassesByBreakpoint_def classTokens_def)
next
  case False
  have "filter (keptAtBreakpoint ''mobile'') (classTokens s) =
          filter (\<lambda>c. \<not> startsWith c ''md:'' \<and> \<not> startsWith c ''lg:'') (classTokens s)"
    by (rule filter_cong) (auto simp: kept_mobile dest: classTokens_plain)
  moreover have "classTokens (joinWith '' '' (filter (keptAtBreakpoint ''mobile'') (classTokens s)))
          = filter (keptAtBreakpoint ''mobile'') (classTokens s)"
    by (rule classTokens_join) (auto dest: classTokens_plain)
  ultimately show ?thesis using False by (simp add: filterClassesByBreakpoint_def)
qed

text \<open>
  C8. At the mobile breakpoint the class filter of the renderer keeps exactly the tokens
  without one of its breakpoint prefixes, \<open>md:\<close> for tablet and \<open>lg:\<close> for desktop, in
  their order: the tokens of the result are the tokens of the input that start with
  neither. So a tablet-prefixed and a desktop-prefixed entry are both gone, whatever
  their base tokens, as in \<open>w-full md:w-[50px] lg:w-[100px]\<close>, which leaves \<open>w-full\<close>.
\<close>

theorem mobile_filter_drops_prefixed:
  "classTokens (filterClassesByBreakpoint s ''mobile'') =
     filter (\<lambda>c. \<not> startsWith c ''md:'' \<and> \<not> startsWith c ''lg:'') (classTokens s)
   \<and> ''md:'' @ b1 \<notin> set (classTokens (filterClassesByBreakpoint s ''mobile''))
   \<and> ''lg:'' @ b2 \<notin> set (classTokens (filterClassesByBreakpoint s ''mobile''))
   \<and> filterClassesByBreakpoint ''w-full md:w-[50px] lg:w-[100px]'' ''mobile'' = ''w-full''"
proof (intro conjI)
  show "classTokens (filterClassesByBreakpoint s ''mobile'') =
     filter (\<lambda>c. \<not> startsWith c ''md:'' \<and> \<not> startsWith c ''lg:'') (classTokens s)"
    by (rule filter_mobile_tokens)
  show "''md:'' @ b1 \<notin> set (classTokens (filterClassesByBreakpoint s ''mobile''))"
    unfolding filter_mobile_tokens by simp
  show "''lg:'' @ b2 \<notin> set (classTokens (filterClassesByBreakpoint s ''mobile''))"
    unfolding filter_mobile_tokens by simp
  show "filterClassesByBreakpoint ''w-full md:w-[50px] lg:w-[100px]'' ''mobile'' = ''w-full''"
    by code_simp
qed

theorem mobile_filter_drops_prefixed_witness:
  "classTokens (filterClassesByBreakpoint ''flex md:w-[50px] p-[4px] lg:w-[100px]'' ''mobile'')
     = [''flex'', ''p-[4px]'']
   \<and> ''md:w-[50px]'' \<notin> set (classTokens
        (filterClassesByBreakpoint ''flex md:w-[50px] p-[4px] lg:w-[100px]'' ''mobile''))
   \<and> ''lg:w-[100px]'' \<notin> set (classTokens
        (filterClassesByBreakpoint ''flex md:w-[50px] p-[4px] lg:w-[100px]'' ''mobile''))"
proof -
  have t: "filter (\<lambda>c. \<not> startsWith c ''md:'' \<and> \<not> startsWith c ''lg:'')
             (classTokens ''flex md:w-[50px] p-[4px] lg:w-[100px]'') = [''flex'', ''p-[4px]'']"
    by code_simp
  from mobile_filter_drops_prefixed
         [of "''flex md:w-[50px] p-[4px] lg:w-[100px]''" "''w-[50px]''" "''w-[100px]''"] t
  show ?thesis by simp
qed

section \<open>Placeholders in a template\<close>

lemma replaceAll_quiet:
  "quietText t r \<Longrightarrow> replaceAll matchMarker f (t @ r) = t @ replaceAll matchMarker f r"
  by (induction t) auto

lemma replaceWith_quiet:
  "quietText t r
     \<Longrightarrow> replaceWith matchMarker f (t @ r) = prepend t (replaceWith matchMarker f r)"
  by (induction t) (auto simp: prepend_def split: sum.splits)

lemma matchMarker_other: "c \<noteq> CHR ''<'' \<Longrightarrow> matchMarker (c # s) = None"
  by (simp add: matchMarker_def markerOpen_def)

lemma quietText_plain: "CHR ''<'' \<notin> set t \<Longrightarrow> quietText t r"
  by (induction t) (auto simp: matchMarker_other)

lemma takeWhile_stop: "c \<notin> set i \<Longrightarrow> takeWhile (\<lambda>x. x \<noteq> c) (i @ c # r) = i"
  by (induction i) auto

lemma dropWhile_stop: "c \<notin> set i \<Longrightarrow> dropWhile (\<lambda>x. x \<noteq> c) (i @ c # r) = c # r"
  by (induction i) auto

lemma matchMarker_marker:
  assumes "i \<noteq> []" and "CHR 0x22 \<notin> set i"
  shows "matchMarker (marker i @ r) = Some (i, r)"
proof -
  have sw: "startsWith (marker i @ r) markerOpen"
    using startsWith_same[of markerOpen "i @ markerClose @ r"] by (simp add: marker_def)
  have dr: "drop (length markerOpen) (marker i @ r) = i @ markerClose @ r"
    by (simp add: marker_def)
  have mc: "markerClose @ r = CHR 0x22 # (''></ycode-inline-variable>'' @ r)"
    by (simp add: markerClose_def)
  from assms(2) have tw: "takeWhile (\<lambda>x. x \<noteq> CHR 0x22) (i @ markerClose @ r) = i"
    unfolding mc by (rule takeWhile_stop)
  from assms(2) have dw: "dropWhile (\<lambda>x. x \<noteq> CHR 0x22) (i @ markerClose @ r) = markerClose @ r"
    unfolding mc by (rule dropWhile_stop)
  have sc: "startsWith (markerClose @ r) markerClose" by (rule startsWith_same)
  show ?thesis
    unfolding matchMarker_def Let_def dr tw dw using sw assms(1) sc
    by simp
qed

lemma marker_split:
  assumes "i \<noteq> []" and "CHR 0x22 \<notin> set i"
  obtains c cs where "marker i @ r = c # cs" and "length r < length (c # cs)"
    and "matchMarker (c # cs) = Some (i, r)"
proof -
  obtain c cs where m: "marker i @ r = c # cs"
    by (simp add: marker_def markerOpen_def)
  have len: "length r < length (c # cs)"
    unfolding m[symmetric] by (simp add: marker_def markerOpen_def)
  from matchMarker_marker[OF assms, of r] m have "matchMarker (c # cs) = Some (i, r)" by simp
  with m len that show ?thesis by blast
qed

lemma replaceAll_marker:
  assumes "i \<noteq> []" and "CHR 0x22 \<notin> set i"
  shows "replaceAll matchMarker f (marker i @ r) = f i @ replaceAll matchMarker f r"
proof -
  from marker_split[OF assms, of r] obtain c cs where m: "marker i @ r = c # cs"
    and len: "length r < length (c # cs)" and mm: "matchMarker (c # cs) = Some (i, r)"
    by blast
  from len mm show ?thesis unfolding m by simp
qed

lemma replaceWith_marker:
  assumes "i \<noteq> []" and "CHR 0x22 \<notin> set i"
  shows "replaceWith matchMarker f (marker i @ r)
           = (case f i of Inl e \<Rightarrow> Inl e | Inr v \<Rightarrow> prepend v (replaceWith matchMarker f r))"
proof -
  from marker_split[OF assms, of r] obtain c cs where m: "marker i @ r = c # cs"
    and len: "length r < length (c # cs)" and mm: "matchMarker (c # cs) = Some (i, r)"
    by blast
  from len mm show ?thesis unfolding m by simp
qed

lemma replaceAll_template:
  "properParts parts \<Longrightarrow>
     replaceAll matchMarker f (renderTemplate parts) = resolveTemplate f parts"
proof (induction parts)
  case Nil
  then show ?case by simp
next
  case (Cons p ps)
  then show ?case
    by (cases p) (simp_all add: replaceAll_quiet replaceAll_marker)
qed

lemma replaceWith_template:
  assumes "properParts parts" and "\<forall>i \<in> set (placeholderIds parts). f i = Inr (g i)"
  shows "replaceWith matchMarker f (renderTemplate parts) = Inr (resolveTemplate g parts)"
  using assms
proof (induction parts)
  case Nil
  then show ?case by simp
next
  case (Cons p ps)
  then show ?case
    by (cases p) (simp_all add: replaceWith_quiet replaceWith_marker prepend_def)
qed

lemma resolveTemplate_same:
  "\<forall>i \<in> set (placeholderIds parts). f i = g i
     \<Longrightarrow> resolveTemplate f parts = resolveTemplate g parts"
proof (induction parts)
  case Nil
  then show ?case by simp
next
  case (Cons p ps)
  then show ?case by (cases p) simp_all
qed

lemma resolveTemplate_literal:
  "\<forall>i \<in> set (placeholderIds parts). f i = [] \<Longrightarrow> resolveTemplate f parts = literalText parts"
proof (induction parts)
  case Nil
  then show ?case by simp
next
  case (Cons p ps)
  then show ?case by (cases p) simp_all
qed

lemma resolveTemplate_plain:
  assumes "\<forall>t. Txt t \<in> set parts \<longrightarrow> CHR ''<'' \<notin> set t"
    and "\<forall>i \<in> set (placeholderIds parts). CHR ''<'' \<notin> set (f i)"
  shows "CHR ''<'' \<notin> set (resolveTemplate f parts)"
  using assms
proof (induction parts)
  case Nil
  then show ?case by simp
next
  case (Cons p ps)
  then show ?case by (cases p) auto
qed

lemma placeholderValue_stale:
  assumes "ic_variables ic = Some vars" and "fieldOfVariable vars i = Some fid"
    and "\<not> list_ex (\<lambda>f. field_id f = fid) fs"
  shows "placeholderValue pt fs item ic i = []"
  using assms by (cases item) (simp_all add: placeholderValue_def fieldValue_def)

lemma resolveVariable_value:
  assumes nothrow: "fref = NotAnArray \<longrightarrow> \<not> reachesFieldCheck (Some it) ic parts"
    and vars: "ic_variables ic = Some vars" and i: "i \<in> set (placeholderIds parts)"
  shows "resolveVariable pt vars fref it i = Inr (placeholderValue pt (fieldsList fref) (Some it) ic i)"
proof (cases "fieldOfVariable vars i")
  case None
  with vars show ?thesis by (simp add: resolveVariable_def placeholderValue_def)
next
  case (Some fid)
  with vars i have "reachesFieldCheck (Some it) ic parts"
    by (auto simp: reachesFieldCheck_def list_ex_iff)
  with nothrow obtain fs where "fref = Fields fs" by (cases fref) auto
  with Some vars show ?thesis
    by (simp add: resolveVariable_def placeholderValue_def fieldsList_def)
qed

lemma resolveInline_template:
  assumes parts: "properParts parts" and data: "ic_data ic = Some (renderTemplate parts)"
    and nothrow: "fieldsOfCollection cf cid = NotAnArray \<longrightarrow> \<not> reachesFieldCheck item ic parts"
  shows "resolveInline pt cf ic item cid
           = Inr (resolveTemplate
                    (placeholderValue pt (fieldsList (fieldsOfCollection cf cid)) item ic) parts)"
proof (cases "\<exists>it vars. item = Some it \<and> ic_variables ic = Some vars")
  case True
  then obtain it vars where it: "item = Some it" and vars: "ic_variables ic = Some vars"
    by blast
  let ?fref = "fieldsOfCollection cf cid"
  have "\<forall>i \<in> set (placeholderIds parts).
          resolveVariable pt vars ?fref it i = Inr (placeholderValue pt (fieldsList ?fref) item ic i)"
    using resolveVariable_value[OF nothrow[unfolded it] vars] it by blast
  from replaceWith_template[OF parts this] it vars data show ?thesis
    by (simp add: resolveInline_def)
next
  case False
  then have none: "placeholderValue pt fs item ic = (\<lambda>g. [])" for fs
    by (cases item; cases "ic_variables ic") (auto simp: placeholderValue_def)
  from False have "resolveInline pt cf ic item cid
                     = Inr (replaceAll matchMarker (\<lambda>g. []) (renderTemplate parts))"
    using data by (cases item; cases "ic_variables ic") (auto simp: resolveInline_def)
  with parts none show ?thesis by (simp add: replaceAll_template)
qed

lemma getText_template:
  assumes "properParts parts"
    and "\<not> isFieldVariable (layerText layer)"
    and "layer_variables_text layer = Some ic"
    and "ic_data ic = Some (renderTemplate parts)"
    and "fieldsOfCollection cf cid = NotAnArray \<longrightarrow> \<not> reachesFieldCheck item ic parts"
  shows "getText pt cf layer item cid =
           Inr (Str (resolveTemplate
                  (placeholderValue pt (fieldsList (fieldsOfCollection cf cid)) item ic) parts))"
  using assms(2,3) resolveInline_template[OF assms(1,4,5), of pt]
  by (simp add: getText_def)

text \<open>
  C9 as stated fails. In the first template a placeholder stands inside the text of
  another opening and closing tag; its variable points at a field that is not among the
  fields of the collection. The inner placeholder is replaced by the empty string, and
  what is left of the template is a raw placeholder. In the second call the collection
  id is \<open>constructor\<close>, which the object of fields inherits: the field list is no array,
  and resolving the placeholder throws.
\<close>

theorem stale_placeholder_counterexample:
  "getText (\<lambda>k. k) [(''c1'', [])]
     \<lparr>layer_text = None, layer_content = None,
      layer_variables_text =
        Some \<lparr>ic_data = Some (markerOpen @ ''v'' @ [CHR 0x22] @ ''>'' @ marker ''v''
                              @ ''</ycode-inline-variable>''),
              ic_variables = Some [(''v'', \<lparr>var_type = ''field'', var_field_id = Some ''gone''\<rparr>)]\<rparr>\<rparr>
     (Some []) (Some ''c1'')
     = Inr (Str (marker ''v''))
   \<and> str_includes (markerOpen @ ''v'' @ [CHR 0x22] @ ''>'' @ marker ''v''
                    @ ''</ycode-inline-variable>'') (marker ''v'')
   \<and> \<not> list_ex (\<lambda>f. field_id f = ''gone'')
          (fieldsList (fieldsOfCollection [(''c1'', [])] (Some ''c1'')))
   \<and> getText (\<lambda>k. k) [(''c1'', [])]
     \<lparr>layer_text = None, layer_content = None,
      layer_variables_text =
        Some \<lparr>ic_data = Some (''By '' @ marker ''v''),
              ic_variables = Some [(''v'', \<lparr>var_type = ''field'', var_field_id = Some ''gone''\<rparr>)]\<rparr>\<rparr>
     (Some []) (Some ''constructor'')
     = Inl TypeError"
  by code_simp

text \<open>
  C9, amended. Take a layer whose text is not itself a field variable and whose template
  is made of literal text in which the placeholder pattern matches nowhere and of
  placeholders (ids non-empty, without a double quote); and let the callback not come to
  the field check while the collection id names only a member that the object of fields
  inherits. Then \<open>getText\<close> returns, without an error, the literal text with every
  placeholder replaced by what it stands for: nothing when there is no item or no object
  of variables or the variable is no field variable, else the value of the field. A
  placeholder whose variable points at a field that is not in the field list of the
  collection stands for the empty string. When all placeholders stand for the empty
  string, the result is the literal text alone; when neither the literal text nor a
  value holds a \<open><\<close>, the result holds none.
\<close>

theorem stale_placeholder_resolved:
  "properParts parts \<Longrightarrow> \<not> isFieldVariable (layerText layer)
   \<Longrightarrow> layer_variables_text layer = Some ic \<Longrightarrow> ic_data ic = Some (renderTemplate parts)
   \<Longrightarrow> (fieldsOfCollection cf cid = NotAnArray \<longrightarrow> \<not> reachesFieldCheck item ic parts)
   \<Longrightarrow> getText pt cf layer item cid =
           Inr (Str (resolveTemplate
                  (placeholderValue pt (fieldsList (fieldsOfCollection cf cid)) item ic) parts))
       \<and> (\<forall>vars i fid.
             ic_variables ic = Some vars \<and> fieldOfVariable vars i = Some fid
             \<and> \<not> list_ex (\<lambda>f. field_id f = fid) (fieldsList (fieldsOfCollection cf cid))
             \<longrightarrow> placeholderValue pt (fieldsList (fieldsOfCollection cf cid)) item ic i = [])
       \<and> ((\<forall>i \<in> set (placeholderIds parts).
              placeholderValue pt (fieldsList (fieldsOfCollection cf cid)) item ic i = [])
             \<longrightarrow> resolveTemplate
                   (placeholderValue pt (fieldsList (fieldsOfCollection cf cid)) item ic) parts
                 = literalText parts)
       \<and> ((\<forall>t. Txt t \<in> set parts \<longrightarrow> CHR ''<'' \<notin> set t)
            \<and> (\<forall>i \<in> set (placeholderIds parts).
                  CHR ''<'' \<notin> set (placeholderValue pt (fieldsList (fieldsOfCollection cf cid))
                                     item ic i))
             \<longrightarrow> CHR ''<'' \<notin> set (resolveTemplate
                   (placeholderValue pt (fieldsList (fieldsOfCollection cf cid)) item ic) parts))"
  using getText_template placeholderValue_stale resolveTemplate_literal resolveTemplate_plain
  by (intro conjI allI impI) (blast, blast, blast, blast)

theorem stale_placeholder_resolved_witness:
  "getText (\<lambda>k. k) [(''c1'', [\<lparr>field_id = ''title'', field_name = ''Title''\<rparr>])]
     \<lparr>layer_text = None, layer_content = None,
      layer_variables_text =
        Some \<lparr>ic_data = Some (''1 < 2, by '' @ marker ''v1'' @ '', on '' @ marker ''v2'' @ ''.''),
              ic_variables = Some [(''v1'', \<lparr>var_type = ''field'', var_field_id = Some ''author''\<rparr>),
                                   (''v2'', \<lparr>var_type = ''field'', var_field_id = Some ''title''\<rparr>)]\<rparr>\<rparr>
     (Some [(''author'', ''Ann''), (''title'', ''Day'')]) (Some ''c1'')
     = Inr (Str ''1 < 2, by , on Day.'')"
proof -
  let ?parts = "[Txt ''1 < 2, by '', Placeholder ''v1'', Txt '', on '', Placeholder ''v2'', Txt ''.'']"
  let ?ic = "\<lparr>ic_data = Some (''1 < 2, by '' @ marker ''v1'' @ '', on '' @ marker ''v2'' @ ''.''),
              ic_variables = Some [(''v1'', \<lparr>var_type = ''field'', var_field_id = Some ''author''\<rparr>),
                                   (''v2'', \<lparr>var_type = ''field'', var_field_id = Some ''title''\<rparr>)]\<rparr>"
  let ?layer = "\<lparr>layer_text = None, layer_content = None, layer_variables_text = Some ?ic\<rparr>"
  let ?cf = "[(''c1'', [\<lparr>field_id = ''title'', field_name = ''Title''\<rparr>])]"
  let ?item = "Some [(''author'', ''Ann''), (''title'', ''Day'')]"
  have h1: "properParts ?parts" by code_simp
  have h2: "\<not> isFieldVariable (layerText ?layer)"
    by (simp add: isFieldVariable_def layerText_def textTruthy_def)
  have h3: "layer_variables_text ?layer = Some ?ic" by simp
  have h4: "ic_data ?ic = Some (renderTemplate ?parts)" by simp
  have h5: "fieldsOfCollection ?cf (Some ''c1'') = NotAnArray
              \<longrightarrow> \<not> reachesFieldCheck ?item ?ic ?parts"
    by code_simp
  have e: "resolveTemplate
             (placeholderValue (\<lambda>k. k) (fieldsList (fieldsOfCollection ?cf (Some ''c1''))) ?item ?ic)
             ?parts = ''1 < 2, by , on Day.''"
    by code_simp
  from stale_placeholder_resolved[OF h1 h2 h3 h4 h5, of "\<lambda>k. k"]
  have "getText (\<lambda>k. k) ?cf ?layer ?item (Some ''c1'')
        = Inr (Str (resolveTemplate
             (placeholderValue (\<lambda>k. k) (fieldsList (fieldsOfCollection ?cf (Some ''c1''))) ?item ?ic)
             ?parts))"
    by simp
  with e show ?thesis by simp
qed

section \<open>The round trip\<close>
















































end
